theory Spec2Isabelle
  imports Complex_Main "HOL-Library.Sublist" "HOL-Library.List_Lexorder"
begin

section \<open>Python values used by the retrieval core\<close>

text \<open>
  Strings are \<^typ>\<open>string\<close>, read as sequences of code points below 256 (Latin-1); the
  helpers below are Python's \<^verbatim>\<open>str\<close> methods on such text. Among these code points
  Python's whitespace is 9 to 13, 28 to 32, 133 (U+0085) and 160 (U+00A0), and the letters
  with a lower-case form are A to Z and 192 to 222 without 215. Exceptions are values of
  \<open>error\<close>; a function that can raise returns \<open>error + 'a\<close> with \<open>Inl\<close> for the
  exception.
\<close>

datatype error =
  ValueError string
  | IndexError
  | KeyError string
  | TypeError
  | ExternalError string

definition py_isspace :: "char \<Rightarrow> bool" where
  "py_isspace c =
     (let n = (of_char c :: nat)
      in (9 \<le> n \<and> n \<le> 13) \<or> (28 \<le> n \<and> n \<le> 32) \<or> n = 133 \<or> n = 160)"

definition py_lower_char :: "char \<Rightarrow> char" where
  "py_lower_char c =
     (let n = (of_char c :: nat)
      in if (65 \<le> n \<and> n \<le> 90) \<or> (192 \<le> n \<and> n \<le> 222 \<and> n \<noteq> 215)
         then char_of (n + 32) else c)"

definition py_lower :: "string \<Rightarrow> string" where
  "py_lower s = map py_lower_char s"

definition py_strip :: "string \<Rightarrow> string" where
  "py_strip s = rev (dropWhile py_isspace (rev (dropWhile py_isspace s)))"

text \<open>\<^verbatim>\<open>s.split()\<close>: the maximal runs of non-whitespace characters, in order.\<close>

fun split_acc :: "string \<Rightarrow> string \<Rightarrow> string list" where
  "split_acc w [] = (if w = [] then [] else [rev w])"
| "split_acc w (c # cs) =
     (if py_isspace c
      then (if w = [] then split_acc [] cs else rev w # split_acc [] cs)
      else split_acc (c # w) cs)"

definition py_split :: "string \<Rightarrow> string list" where
  "py_split s = split_acc [] s"

text \<open>\<^verbatim>\<open>sep.join(parts)\<close>.\<close>

fun py_join :: "string \<Rightarrow> string list \<Rightarrow> string" where
  "py_join sep [] = []"
| "py_join sep [p] = p"
| "py_join sep (p # q # ps) = p @ sep @ py_join sep (q # ps)"

text \<open>Truthiness of an optional string (\<^verbatim>\<open>None\<close> and \<^verbatim>\<open>""\<close> are falsy).\<close>

fun truthy :: "string option \<Rightarrow> bool" where
  "truthy None = False"
| "truthy (Some s) = (s \<noteq> [])"


section \<open>The search agent (agents/search\_agent.py)\<close>

subsection \<open>History and truncation\<close>

record message =
  role :: string
  content :: string

definition truncate_content :: "string \<Rightarrow> nat \<Rightarrow> string" where
  "truncate_content content' max_length =
     (if length content' > max_length
      then take max_length content' @ ''... [truncated]''
      else content')"

text \<open>
  \<^verbatim>\<open>update_reasoning_model_history(response, response_type)\<close>. The response is a tool
  result serialised by \<^verbatim>\<open>json.dumps\<close> (which raises on a value that is not JSON
  serialisable) or a message rendered by \<^verbatim>\<open>str\<close>; both renderings are parameters.
  Any other response type leaves the history as it is.
\<close>

definition update_reasoning_model_history ::
  "('r \<Rightarrow> error + string) \<Rightarrow> ('r \<Rightarrow> string) \<Rightarrow> message list \<Rightarrow> 'r \<Rightarrow> string
     \<Rightarrow> error + message list" where
  "update_reasoning_model_history json_dumps py_str history response response_type =
     (if response_type = ''function_call'' then
        (case json_dumps response of
           Inl e \<Rightarrow> Inl e
         | Inr result_str \<Rightarrow>
             Inr (history @ [\<lparr>role = ''assistant'',
                    content = ''Tool result: '' @ truncate_content result_str 2000\<rparr>]))
      else if response_type = ''message'' then
        Inr (history @ [\<lparr>role = ''assistant'',
               content = truncate_content (py_str response) 2000\<rparr>])
      else Inr history)"

definition get_reasoning_model_history :: "message list \<Rightarrow> string" where
  "get_reasoning_model_history history = py_join [CHR 0x0A] (map content history)"


subsection \<open>Tool dispatch\<close>

text \<open>
  The backends are external capabilities: the two search services (each catches every
  exception and returns an envelope), the graph store session behind
  \<^verbatim>\<open>run_cypher_query\<close> (\<^verbatim>\<open>session.run(query, **params)\<close>, which can raise) and the
  schema capability of the relational store (each method catches its exceptions).
\<close>

datatype ('env, 'row) tool_result =
  Envelope 'env
  | Records "'row list"
  | UnknownFunction string
  | NoToolCall

record ('env, 'row) services =
  global_search :: "string \<Rightarrow> string \<Rightarrow> string \<Rightarrow> 'env"
  local_search :: "string \<Rightarrow> string \<Rightarrow> string \<Rightarrow> 'env"
  session_run :: "string \<Rightarrow> (string \<times> string) list \<Rightarrow> error + 'row list"
  list_tables :: "'env"
  get_table_columns :: "string \<Rightarrow> 'env"
  custom_query :: "string \<Rightarrow> 'env"

type_synonym tool_args = "string \<rightharpoonup> string"

text \<open>\<^verbatim>\<open>tool_call_arguments[key]\<close> raises \<^verbatim>\<open>KeyError\<close> on a missing key.\<close>

definition arg :: "tool_args \<Rightarrow> string \<Rightarrow> error + string" where
  "arg args k = (case args k of None \<Rightarrow> Inl (KeyError k) | Some v \<Rightarrow> Inr v)"

text \<open>
  \<^verbatim>\<open>UnstructuredService.run_cypher_query(query)\<close>: the query text is run as given, with
  the one parameter \<^verbatim>\<open>user_email="system@example.com"\<close>; each record is copied field by
  field.
\<close>

definition run_cypher_query ::
  "('env, 'row) services \<Rightarrow> string \<Rightarrow> error + 'row list" where
  "run_cypher_query svc q =
     (case session_run svc q [(''user_email'', ''system@example.com'')] of
        Inl e \<Rightarrow> Inl e
      | Inr result \<Rightarrow> Inr (map (\<lambda>record. record) result))"

definition unstructured_search ::
  "('env, 'row) services \<Rightarrow> string \<Rightarrow> string \<Rightarrow> tool_args
     \<Rightarrow> error + ('env, 'row) tool_result" where
  "unstructured_search svc user_email tool_name args =
     (if tool_name = ''global_search'' then
        (case arg args ''query'' of Inl e \<Rightarrow> Inl e | Inr q \<Rightarrow>
         (case arg args ''response_type'' of Inl e \<Rightarrow> Inl e | Inr rt \<Rightarrow>
            Inr (Envelope (global_search svc q rt user_email))))
      else if tool_name = ''local_search'' then
        (case arg args ''query'' of Inl e \<Rightarrow> Inl e | Inr q \<Rightarrow>
         (case arg args ''response_type'' of Inl e \<Rightarrow> Inl e | Inr rt \<Rightarrow>
            Inr (Envelope (local_search svc q rt user_email))))
      else if tool_name = ''run_cypher_query'' then
        (case arg args ''query'' of Inl e \<Rightarrow> Inl e | Inr q \<Rightarrow>
         (case run_cypher_query svc q of Inl e \<Rightarrow> Inl e | Inr rows \<Rightarrow> Inr (Records rows)))
      else Inr (UnknownFunction tool_name))"

definition structured_search ::
  "('env, 'row) services \<Rightarrow> string \<Rightarrow> tool_args \<Rightarrow> error + ('env, 'row) tool_result" where
  "structured_search svc tool_name args =
     (if tool_name = ''get_all_tables'' then Inr (Envelope (list_tables svc))
      else if tool_name = ''get_table_schema'' then
        (case arg args ''table_name'' of Inl e \<Rightarrow> Inl e | Inr t \<Rightarrow>
           Inr (Envelope (get_table_columns svc t)))
      else if tool_name = ''run_sql_query'' then
        (case arg args ''query'' of Inl e \<Rightarrow> Inl e | Inr q \<Rightarrow>
           Inr (Envelope (custom_query svc q)))
      else Inr (UnknownFunction tool_name))"

text \<open>
  \<^verbatim>\<open>tool_classifications\<close> maps a tool's name to its \<^verbatim>\<open>tool_type\<close>; a tool without
  one is read back as \<^verbatim>\<open>None\<close>, like a tool that was never loaded.
\<close>

definition call_tool ::
  "('env, 'row) services \<Rightarrow> (string \<rightharpoonup> string) \<Rightarrow> string \<Rightarrow> string \<Rightarrow> tool_args
     \<Rightarrow> error + ('env, 'row) tool_result" where
  "call_tool svc tool_classifications user_email tool_name args =
     (let tool_type = tool_classifications tool_name
      in if tool_type = Some ''structured'' then structured_search svc tool_name args
         else if tool_type = Some ''unstructured''
           then unstructured_search svc user_email tool_name args
         else Inr NoToolCall)"

subsection \<open>The reasoning loop\<close>

text \<open>
  The reasoning model, the JSON codec and the sufficiency judge are capabilities outside
  the repository. Each is a function of the number of the iteration that calls it and of
  what the code passes to it; \<open>Inl\<close> is a call that raises. The judge yields the parsed
  verdict, or \<open>None\<close> when its answer is not valid JSON.
\<close>

datatype reasoning_response =
  FunctionCall string string
  | Message string
  | OtherOutput string

record verdict =
  sufficient :: bool
  reasoning :: string
  final_answer :: "string option"

record ('env, 'row) capabilities =
  reasoning_model :: "nat \<Rightarrow> message list \<Rightarrow> error + reasoning_response"
  json_loads :: "string \<Rightarrow> error + tool_args"
  json_dumps :: "('env, 'row) tool_result \<Rightarrow> error + string"
  judge :: "nat \<Rightarrow> string \<Rightarrow> error + verdict option"

definition evaluate_sufficiency ::
  "('env, 'row) capabilities \<Rightarrow> nat \<Rightarrow> string \<Rightarrow> error + verdict" where
  "evaluate_sufficiency caps i history_text =
     (case judge caps i history_text of
        Inl e \<Rightarrow> Inl e
      | Inr None \<Rightarrow>
          Inr \<lparr>sufficient = False, reasoning = ''Failed to evaluate'', final_answer = None\<rparr>
      | Inr (Some v) \<Rightarrow> Inr v)"

text \<open>One pass of the loop body up to the history update (iteration \<open>i\<close>).\<close>

definition plan_step ::
  "('env, 'row) capabilities \<Rightarrow> ('env, 'row) services \<Rightarrow> (string \<rightharpoonup> string) \<Rightarrow> string
     \<Rightarrow> nat \<Rightarrow> message list \<Rightarrow> error + message list" where
  "plan_step caps svc cls user_email i history =
     (case reasoning_model caps i history of
        Inl e \<Rightarrow> Inl e
      | Inr (FunctionCall name arguments) \<Rightarrow>
          (case json_loads caps arguments of
             Inl e \<Rightarrow> Inl e
           | Inr args \<Rightarrow>
               (case call_tool svc cls user_email name args of
                  Inl e \<Rightarrow> Inl e
                | Inr tool_result \<Rightarrow>
                    update_reasoning_model_history (json_dumps caps) (\<lambda>_. [])
                      history tool_result ''function_call''))
      | Inr (Message text) \<Rightarrow>
          update_reasoning_model_history (\<lambda>s. Inr s) (\<lambda>s. s) history text ''message''
      | Inr (OtherOutput _) \<Rightarrow> Inr history)"

record run_outcome =
  iterations :: nat
  answer :: "error + string option"
  final_history :: "message list"

text \<open>
  \<^verbatim>\<open>for _ in range(self.max_plans)\<close>: \<open>n\<close> passes are left, \<open>i\<close> have been made. The
  run returns the judge's final answer, or \<^verbatim>\<open>None\<close> when the passes are used up.
\<close>

fun run_loop ::
  "('env, 'row) capabilities \<Rightarrow> ('env, 'row) services \<Rightarrow> (string \<rightharpoonup> string) \<Rightarrow> string
     \<Rightarrow> nat \<Rightarrow> nat \<Rightarrow> message list \<Rightarrow> run_outcome" where
  "run_loop caps svc cls user_email 0 i history =
     \<lparr>iterations = i, answer = Inr None, final_history = history\<rparr>"
| "run_loop caps svc cls user_email (Suc n) i history =
     (case plan_step caps svc cls user_email (Suc i) history of
        Inl e \<Rightarrow> \<lparr>iterations = Suc i, answer = Inl e, final_history = history\<rparr>
      | Inr history' \<Rightarrow>
          (case evaluate_sufficiency caps (Suc i) (get_reasoning_model_history history') of
             Inl e \<Rightarrow> \<lparr>iterations = Suc i, answer = Inl e, final_history = history'\<rparr>
           | Inr evaluation \<Rightarrow>
               if sufficient evaluation \<and> truthy (final_answer evaluation)
               then \<lparr>iterations = Suc i, answer = Inr (final_answer evaluation),
                      final_history = history'\<rparr>
               else run_loop caps svc cls user_email n (Suc i) history'))"

definition max_plans :: nat where
  "max_plans = 10"

definition initial_history :: "string \<Rightarrow> string \<Rightarrow> message list" where
  "initial_history reasoning_prompt query =
     [\<lparr>role = ''system'', content = reasoning_prompt\<rparr>,
      \<lparr>role = ''user'', content = query\<rparr>]"

definition run ::
  "('env, 'row) capabilities \<Rightarrow> ('env, 'row) services \<Rightarrow> (string \<rightharpoonup> string) \<Rightarrow> string
     \<Rightarrow> string \<Rightarrow> string \<Rightarrow> run_outcome" where
  "run caps svc cls user_email reasoning_prompt query =
     run_loop caps svc cls user_email max_plans 0 (initial_history reasoning_prompt query)"

text \<open>
  The course of a run that is not cut short: the history after \<open>k\<close> passes, and the
  verdict the judge gives at pass \<open>k\<close>.
\<close>

fun history_at ::
  "('env, 'row) capabilities \<Rightarrow> ('env, 'row) services \<Rightarrow> (string \<rightharpoonup> string) \<Rightarrow> string
     \<Rightarrow> message list \<Rightarrow> nat \<Rightarrow> error + message list" where
  "history_at caps svc cls user_email h0 0 = Inr h0"
| "history_at caps svc cls user_email h0 (Suc k) =
     (case history_at caps svc cls user_email h0 k of
        Inl e \<Rightarrow> Inl e
      | Inr h \<Rightarrow> plan_step caps svc cls user_email (Suc k) h)"

definition verdict_at ::
  "('env, 'row) capabilities \<Rightarrow> ('env, 'row) services \<Rightarrow> (string \<rightharpoonup> string) \<Rightarrow> string
     \<Rightarrow> message list \<Rightarrow> nat \<Rightarrow> error + verdict" where
  "verdict_at caps svc cls user_email h0 k =
     (case history_at caps svc cls user_email h0 k of
        Inl e \<Rightarrow> Inl e
      | Inr h \<Rightarrow> evaluate_sufficiency caps k (get_reasoning_model_history h))"

definition accepts :: "error + verdict \<Rightarrow> bool" where
  "accepts r = (case r of Inl e \<Rightarrow> False
                | Inr v \<Rightarrow> sufficient v \<and> truthy (final_answer v))"

definition continues :: "error + verdict \<Rightarrow> bool" where
  "continues r = (case r of Inl e \<Rightarrow> False
                  | Inr v \<Rightarrow> \<not> (sufficient v \<and> truthy (final_answer v)))"


section \<open>The global context builder (query/neo4j\_global\_context.py)\<close>

subsection \<open>Reports and the graph store\<close>

text \<open>
  A report is the map the community query returns for one community: the fields the
  builder reads, with the types the query gives them (\<^verbatim>\<open>id\<close> as the text \<^verbatim>\<open>str\<close>
  makes of it). The query returns \<^verbatim>\<open>title: COALESCE(finding.summary, c.title)\<close> with no
  last resort, so the title is \<^verbatim>\<open>None\<close> for a community that has neither; summary and
  full content fall back to the empty text. The entry the weight computation stores under the weight attribute is the
  field \<open>occurrence\<close>, absent until it is stored; the attribute's name (\<^verbatim>\<open>occurrence\<close>,
  \<^verbatim>\<open>occurrence weight\<close> in the callers) is taken to differ from the other fields' names.
  Python's floats are read as real numbers.
\<close>

record report =
  report_id :: string
  title :: "string option"
  summary :: string
  full_content :: string
  entity_names :: "string list"
  chunk_texts :: "string list"
  rank :: real
  occurrence :: "real option"

text \<open>
  The queries the builders send to the graph store. \<open>CommunityReportsQuery (Some e)\<close> is
  the community query whose patterns carry \<^verbatim>\<open>{userEmail: $user_email}\<close>, run with
  \<^verbatim>\<open>user_email = e\<close>; \<open>CommunityReportsQuery None\<close> is the query without that
  property, run without parameters. \<open>ChunkDataQuery e d\<close> is the chunk query, run with
  \<^verbatim>\<open>user_email = e\<close> and \<^verbatim>\<open>document_type = d\<close>.
\<close>

datatype graph_query =
  CommunityReportsQuery "string option"
  | ChunkDataQuery string "string option"

subsection \<open>Weights\<close>

definition get_occurrence :: "report \<Rightarrow> real" where
  "get_occurrence r = (case occurrence r of None \<Rightarrow> 0 | Some w \<Rightarrow> w)"

text \<open>\<^verbatim>\<open>max(...)\<close> of a non-empty sequence.\<close>

fun py_max :: "real list \<Rightarrow> real" where
  "py_max [] = 0"
| "py_max (x # xs) = fold max xs x"

definition compute_community_weights_neo4j :: "report list \<Rightarrow> bool \<Rightarrow> report list" where
  "compute_community_weights_neo4j reports normalize' =
     (let weighted =
            map (\<lambda>r. let entity_count = length (remdups (entity_names r));
                          chunk_count = length (remdups (chunk_texts r))
                      in r\<lparr>occurrence := Some (real entity_count + real chunk_count * 0.1)\<rparr>)
              reports
      in if normalize' \<and> weighted \<noteq> [] then
           (let max_weight = py_max (map get_occurrence weighted)
            in if max_weight > 0
               then map (\<lambda>r. r\<lparr>occurrence := Some (get_occurrence r / max_weight)\<rparr>) weighted
               else weighted)
         else weighted)"

subsection \<open>Retrieval and lexical relevance\<close>

text \<open>
  The text a report is searched in. \<^verbatim>\<open>report.get("title", "") + " "\<close> raises
  \<^verbatim>\<open>TypeError\<close> when the title is \<^verbatim>\<open>None\<close>.
\<close>

definition report_text :: "report \<Rightarrow> error + string" where
  "report_text r =
     (case title r of
        None \<Rightarrow> Inl TypeError
      | Some t \<Rightarrow>
          Inr (py_lower (t @ '' '' @ summary r @ '' '' @ py_join '' '' (entity_names r))))"

definition term_matches :: "string list \<Rightarrow> string \<Rightarrow> bool" where
  "term_matches query_terms report_text' =
     list_ex (\<lambda>t. sublist t report_text') (filter (\<lambda>t. length t > 2) query_terms)"

fun relevant_loop ::
  "string list \<Rightarrow> report list \<Rightarrow> report list \<Rightarrow> error + report list" where
  "relevant_loop query_terms relevant_reports [] = Inr relevant_reports"
| "relevant_loop query_terms relevant_reports (r # reports) =
     (case report_text r of
        Inl e \<Rightarrow> Inl e
      | Inr report_text' \<Rightarrow>
          relevant_loop query_terms
            (if term_matches query_terms report_text' then relevant_reports @ [r]
             else relevant_reports)
            reports)"

definition relevance_filter :: "string \<Rightarrow> report list \<Rightarrow> error + report list" where
  "relevance_filter query reports =
     (let query_terms = remdups (py_split (py_lower query))
      in if query_terms \<noteq> [] then
           (case relevant_loop query_terms [] reports of
              Inl e \<Rightarrow> Inl e
            | Inr relevant_reports \<Rightarrow>
                Inr (if relevant_reports \<noteq> [] then relevant_reports else reports))
         else Inr reports)"

text \<open>
  \<^verbatim>\<open>_get_community_reports_from_neo4j\<close>. The store answers a query with its rows or
  raises; the result is paired with the queries that were sent.
\<close>

definition get_community_reports_from_neo4j ::
  "(graph_query \<Rightarrow> error + report list) \<Rightarrow> string option \<Rightarrow> string \<Rightarrow> bool \<Rightarrow> real \<Rightarrow> bool
     \<Rightarrow> bool \<Rightarrow> graph_query list \<times> (error + report list)" where
  "get_community_reports_from_neo4j session user_email query include_community_rank
       min_community_rank include_community_weight normalize_community_weight =
     (let cypher_query =
            (if truthy user_email then CommunityReportsQuery user_email
             else CommunityReportsQuery None)
      in case session cypher_query of
           Inl e \<Rightarrow> ([cypher_query], Inl e)
         | Inr result \<Rightarrow>
             (case relevance_filter query result of
                Inl e \<Rightarrow> ([cypher_query], Inl e)
              | Inr reports \<Rightarrow>
                  (let reports =
                         (if include_community_rank \<and> min_community_rank > 0
                          then filter (\<lambda>r. rank r \<ge> min_community_rank) reports
                          else reports);
                       reports =
                         (if include_community_weight
                          then compute_community_weights_neo4j reports
                                 normalize_community_weight
                          else reports)
                   in ([cypher_query], Inr reports))))"


section \<open>The local context builder (query/neo4j\_local\_context.py)\<close>

subsection \<open>Chunks and retrieval\<close>

text \<open>
  A chunk is the map the chunk query returns for one chunk node. The options shared by
  both builders are one record; the tabular record set is a data frame of named columns
  whose cells are texts or numbers.
\<close>

record chunk =
  chunk_id :: string
  chunk_text :: string
  chunk_entity_names :: "string list"
  entity_descriptions :: "string list"
  entity_types :: "string list"
  document_titles :: "string list"
  embedding :: "real list option"
  relevance_score :: real

datatype cell = Str string | Num real

record dataframe =
  columns :: "string list"
  rows :: "cell list list"

record packing_options =
  column_delimiter :: string
  shuffle_data :: bool
  max_context_tokens :: int
  context_name :: string

datatype context_text = Batches "string list" | Text string

record context_builder_result =
  context_chunks :: context_text
  context_records :: "string \<rightharpoonup> dataframe"
  llm_calls :: nat
  prompt_tokens :: nat
  output_tokens :: nat

abbreviation NL :: string where
  "NL \<equiv> [CHR 0x0A]"

text \<open>
  \<^verbatim>\<open>get_chunks_from_neo4j\<close>. \<open>similarities\<close> stands for the embedding of the query and
  the cosine similarity of every chunk with it; it is \<open>None\<close> when that raises, which the
  code catches and logs. The sort is Python's stable sort in descending order.
\<close>

definition get_chunks_from_neo4j ::
  "(graph_query \<Rightarrow> error + chunk list) \<Rightarrow> (string \<Rightarrow> chunk list \<Rightarrow> real list option)
     \<Rightarrow> string option \<Rightarrow> bool \<Rightarrow> string \<Rightarrow> real \<Rightarrow> string option
     \<Rightarrow> graph_query list \<times> (error + chunk list)" where
  "get_chunks_from_neo4j session similarities user_email openai_client query
       relevance_score_threshold document_type =
     (if \<not> truthy user_email then ([], Inl (ValueError ''User email is required''))
      else if \<not> openai_client then ([], Inl (ValueError ''OpenAI API key is required''))
      else
        (let cypher_query = ChunkDataQuery (the user_email) document_type
         in case session cypher_query of
              Inl e \<Rightarrow> ([cypher_query], Inl e)
            | Inr chunks \<Rightarrow>
                if chunks \<noteq> [] then
                  (case similarities query chunks of
                     None \<Rightarrow> ([cypher_query], Inr chunks)
                   | Some sims \<Rightarrow>
                       (let scored = map (\<lambda>(c, s). c\<lparr>relevance_score := s\<rparr>) (zip chunks sims);
                            sorted = sort_key (\<lambda>c. - relevance_score c) scored
                        in ([cypher_query],
                            Inr (filter (\<lambda>c. relevance_score c \<ge> relevance_score_threshold)
                                   sorted))))
                else ([cypher_query], Inr chunks)))"

subsection \<open>Packing chunks\<close>

definition is_included_chunk :: "chunk \<Rightarrow> bool" where
  "is_included_chunk c = (py_strip (chunk_text c) \<noteq> [])"

text \<open>
  \<^verbatim>\<open>_chunk_context_text\<close>: the text of a chunk and its record. \<open>str_num\<close> is Python's
  rendering of a number.
\<close>

definition chunk_context_text :: "(real \<Rightarrow> string) \<Rightarrow> chunk \<Rightarrow> string \<times> cell list" where
  "chunk_context_text str_num c =
     (let entity_names_str = py_join '', '' (chunk_entity_names c);
          entity_descriptions_str = py_join ''; '' (entity_descriptions c);
          entity_types_str = py_join '', '' (entity_types c);
          document_titles_str = py_join '', '' (document_titles c);
          context_text =
            ''Chunk ID: '' @ chunk_id c @ NL
            @ ''Text: '' @ chunk_text c @ NL
            @ ''Entities: '' @ entity_names_str @ NL
            @ ''Entity Descriptions: '' @ entity_descriptions_str @ NL
            @ ''Entity Types: '' @ entity_types_str @ NL
            @ ''Documents: '' @ document_titles_str @ NL
            @ ''Relevance Score: '' @ str_num (relevance_score c) @ NL;
          record = [Str (chunk_id c), Str (chunk_text c), Str entity_names_str,
                    Str entity_descriptions_str, Str entity_types_str,
                    Str document_titles_str, Num (relevance_score c)]
      in (context_text, record))"

text \<open>
  The token count of a text: the encoder's when the builder has one, the number of
  whitespace-separated words otherwise.
\<close>

definition count_tokens :: "(string \<Rightarrow> nat) option \<Rightarrow> string \<Rightarrow> nat" where
  "count_tokens token_encoder s =
     (case token_encoder of Some enc \<Rightarrow> enc s | None \<Rightarrow> length (py_split s))"

text \<open>
  The packing loop over the included chunks. The state is \<^verbatim>\<open>current_context\<close>,
  \<^verbatim>\<open>current_records\<close> and \<^verbatim>\<open>current_tokens\<close>; the loop stops at the first chunk
  that does not fit, unless nothing has been packed yet.
\<close>

fun pack_chunks ::
  "(string \<Rightarrow> nat) option \<Rightarrow> (real \<Rightarrow> string) \<Rightarrow> int
     \<Rightarrow> string list \<times> cell list list \<times> int \<Rightarrow> chunk list
     \<Rightarrow> string list \<times> cell list list \<times> int" where
  "pack_chunks token_encoder str_num limit (current_context, current_records, current_tokens) [] =
     (current_context, current_records, current_tokens)"
| "pack_chunks token_encoder str_num limit (current_context, current_records, current_tokens)
       (c # cs) =
     (let (context_text, record) = chunk_context_text str_num c;
          chunk_tokens = int (count_tokens token_encoder context_text)
      in if current_tokens + chunk_tokens > limit \<and> current_context \<noteq> []
         then (current_context, current_records, current_tokens)
         else pack_chunks token_encoder str_num limit
                (current_context @ [context_text], current_records @ [record],
                 current_tokens + chunk_tokens) cs)"

text \<open>
  \<^verbatim>\<open>_build_chunks_context\<close>. The log line reads \<^verbatim>\<open>included_chunks[0]\<close> before the
  loop, which raises \<^verbatim>\<open>IndexError\<close> on an empty list. \<^verbatim>\<open>context_data\<close> is the empty
  dictionary the function starts with.
\<close>

definition build_chunks_context ::
  "(string \<Rightarrow> nat) option \<Rightarrow> (real \<Rightarrow> string) \<Rightarrow> chunk list \<Rightarrow> 'a packing_options_scheme
     \<Rightarrow> error + string \<times> (string \<rightharpoonup> dataframe)" where
  "build_chunks_context token_encoder str_num chunks_data opts =
     (if chunks_data = [] then Inr ([], Map.empty)
      else
        (let context_data = Map.empty;
             included_chunks = filter is_included_chunk chunks_data
         in if included_chunks = [] then Inl IndexError
            else
              (let (current_context, current_records, current_tokens) =
                     pack_chunks token_encoder str_num (max_context_tokens opts) ([], [], 0)
                       included_chunks;
                   final_context =
                     (if current_context \<noteq> []
                      then py_join (NL @ NL @ ''---'' @ NL @ NL) current_context else [])
               in Inr (final_context, context_data))))"

text \<open>
  \<^verbatim>\<open>build_context\<close> of the local builder. \<open>conversation_history\<close> is what the history's
  own \<^verbatim>\<open>build_context\<close> returns (a text and its record sets) when a history is given.
\<close>

definition local_build_context ::
  "(graph_query \<Rightarrow> error + chunk list) \<Rightarrow> (string \<Rightarrow> chunk list \<Rightarrow> real list option)
     \<Rightarrow> string option \<Rightarrow> bool \<Rightarrow> (string \<Rightarrow> nat) option \<Rightarrow> (real \<Rightarrow> string)
     \<Rightarrow> string \<Rightarrow> (string \<times> (string \<rightharpoonup> dataframe)) option \<Rightarrow> 'a packing_options_scheme
     \<Rightarrow> graph_query list \<times> (error + context_builder_result)" where
  "local_build_context session similarities user_email openai_client token_encoder str_num
       query conversation_history opts =
     (let (conversation_history_context, final_context_data) =
            (case conversation_history of
               None \<Rightarrow> ([], Map.empty)
             | Some (ctx, data) \<Rightarrow> (ctx, if ctx \<noteq> [] then data else Map.empty));
          (issued, chunks_data) =
            get_chunks_from_neo4j session similarities user_email openai_client query 0.3 None
      in case chunks_data of
           Inl e \<Rightarrow> (issued, Inl e)
         | Inr chunks_data \<Rightarrow>
             (case build_chunks_context token_encoder str_num chunks_data opts of
                Inl e \<Rightarrow> (issued, Inl e)
              | Inr (chunks_context, chunks_context_data) \<Rightarrow>
                  (let context_prefix =
                         (if conversation_history_context \<noteq> []
                          then conversation_history_context @ NL @ NL else [])
                   in (issued,
                       Inr \<lparr>context_chunks = Text (context_prefix @ chunks_context),
                            context_records = final_context_data ++ chunks_context_data,
                            llm_calls = 0, prompt_tokens = 0, output_tokens = 0\<rparr>))))"


section \<open>Packing reports (query/neo4j\_global\_context.py)\<close>

text \<open>
  The options of the global builder extend the shared ones. The environment holds what
  the builder takes from its libraries: the token count of a text (\<^verbatim>\<open>num_tokens\<close> with the
  builder's encoder), Python's rendering of a number, the reading of a text as a number
  (\<^verbatim>\<open>astype(float)\<close>), the CSV form of a data frame, the sort of rows by the values of
  key columns in descending order (\<^verbatim>\<open>sort_values(by=..., ascending=False)\<close>, which
  places rows that tie as pandas chooses) and the seeded shuffle.
\<close>

record community_options = packing_options +
  use_community_summary :: bool
  include_community_rank :: bool
  min_community_rank :: real
  community_rank_name :: string
  include_community_weight :: bool
  community_weight_name :: string
  normalize_community_weight :: bool

record environment =
  num_tokens :: "string \<Rightarrow> nat"
  render_num :: "real \<Rightarrow> string"
  float_of_text :: "string \<Rightarrow> real"
  to_csv :: "string \<Rightarrow> dataframe \<Rightarrow> string"
  sort_values :: "(cell list \<Rightarrow> real list) \<Rightarrow> cell list list \<Rightarrow> cell list list"
  random_shuffle :: "report list \<Rightarrow> report list"

definition is_included_report :: "report \<Rightarrow> bool" where
  "is_included_report r = (summary r \<noteq> [] \<or> full_content r \<noteq> [])"

definition get_header :: "community_options \<Rightarrow> string list" where
  "get_header opts =
     [''id'', ''title'']
     @ (if include_community_weight opts then [community_weight_name opts] else [])
     @ [if use_community_summary opts then ''summary'' else ''content'']
     @ (if include_community_rank opts then [community_rank_name opts] else [])"

definition report_context_text ::
  "environment \<Rightarrow> community_options \<Rightarrow> report \<Rightarrow> string \<times> string list" where
  "report_context_text env opts r =
     (let context =
            [report_id r, (case title r of None \<Rightarrow> ''None'' | Some t \<Rightarrow> t)]
            @ (if include_community_weight opts then [render_num env (get_occurrence r)] else [])
            @ [if use_community_summary opts then summary r else full_content r]
            @ (if include_community_rank opts then [render_num env (rank r)] else [])
      in (py_join (column_delimiter opts) context @ NL, context))"

subsection \<open>Data frames\<close>

definition column_index :: "string \<Rightarrow> dataframe \<Rightarrow> nat" where
  "column_index name df = length (takeWhile (\<lambda>c. c \<noteq> name) (columns df))"

definition cell_num :: "cell \<Rightarrow> real" where
  "cell_num x = (case x of Num v \<Rightarrow> v | Str s \<Rightarrow> 0)"

definition astype_float :: "environment \<Rightarrow> string \<Rightarrow> dataframe \<Rightarrow> dataframe" where
  "astype_float env name df =
     df\<lparr>rows :=
          map (\<lambda>row. map (\<lambda>(c, x). if c = name
                                     then (case x of Str s \<Rightarrow> Num (float_of_text env s)
                                           | Num v \<Rightarrow> Num v)
                                     else x)
                       (zip (columns df) row))
            (rows df)\<rparr>"

definition rank_attribute :: "string option \<Rightarrow> dataframe \<Rightarrow> string list" where
  "rank_attribute column df =
     (case column of
        None \<Rightarrow> []
      | Some c \<Rightarrow> if c \<noteq> [] \<and> c \<in> set (columns df) then [c] else [])"

text \<open>
  \<^verbatim>\<open>_rank_report_context\<close>: the weight and rank columns are read as numbers and the rows
  sorted by them in descending order.
\<close>

definition rank_report_context ::
  "environment \<Rightarrow> dataframe \<Rightarrow> string option \<Rightarrow> string option \<Rightarrow> dataframe" where
  "rank_report_context env report_df weight_column rank_column =
     (let weight_attributes = rank_attribute weight_column report_df;
          report_df = fold (astype_float env) weight_attributes report_df;
          rank_attributes = weight_attributes @ rank_attribute rank_column report_df;
          report_df = fold (astype_float env) (rank_attribute rank_column report_df) report_df
      in if rank_attributes \<noteq> []
         then report_df\<lparr>rows :=
                sort_values env
                  (\<lambda>row. map (\<lambda>a. cell_num (row ! column_index a report_df)) rank_attributes)
                  (rows report_df)\<rparr>
         else report_df)"

definition convert_report_context_to_df ::
  "environment \<Rightarrow> string list list \<Rightarrow> string list \<Rightarrow> string option \<Rightarrow> string option
     \<Rightarrow> dataframe" where
  "convert_report_context_to_df env context_records' header weight_column rank_column =
     (if context_records' = [] then \<lparr>columns = [], rows = []\<rparr>
      else rank_report_context env
             \<lparr>columns = header, rows = map (map Str) context_records'\<rparr>
             weight_column rank_column)"

text \<open>\<^verbatim>\<open>pd.concat(frames, ignore_index=True)\<close> of frames with the same columns.\<close>

definition concat_frames :: "dataframe list \<Rightarrow> dataframe" where
  "concat_frames dfs = \<lparr>columns = columns (hd dfs), rows = concat (map rows dfs)\<rparr>"

subsection \<open>The packing loop\<close>

record pack_state =
  all_context_text :: "string list"
  all_context_records :: "dataframe list"
  batch_text :: string
  batch_tokens :: int
  batch_records :: "string list list"

definition init_batch :: "environment \<Rightarrow> community_options \<Rightarrow> string" where
  "init_batch env opts =
     ''-----'' @ context_name opts @ ''-----'' @ NL
     @ py_join (column_delimiter opts) (get_header opts) @ NL"

definition cut_batch :: "environment \<Rightarrow> community_options \<Rightarrow> pack_state \<Rightarrow> pack_state" where
  "cut_batch env opts st =
     (let record_df =
            convert_report_context_to_df env (batch_records st) (get_header opts)
              (if include_community_weight opts then Some (community_weight_name opts) else None)
              (if include_community_rank opts then Some (community_rank_name opts) else None)
      in if rows record_df = [] then st
         else
           (let current_context_text = to_csv env (column_delimiter opts) record_df;
                current_context_text =
                  (if all_context_text st = []
                   then ''-----'' @ context_name opts @ ''-----'' @ NL @ current_context_text
                   else current_context_text)
            in st\<lparr>all_context_text := all_context_text st @ [current_context_text],
                  all_context_records := all_context_records st @ [record_df]\<rparr>))"

text \<open>
  The loop over the selected reports: the first report that does not fit cuts the batch and
  ends the loop (\<^verbatim>\<open>break\<close>).
\<close>

fun pack_reports ::
  "environment \<Rightarrow> community_options \<Rightarrow> pack_state \<Rightarrow> report list \<Rightarrow> pack_state" where
  "pack_reports env opts st [] = st"
| "pack_reports env opts st (r # rs) =
     (let (new_context_text, new_context) = report_context_text env opts r;
          new_tokens = int (num_tokens env new_context_text)
      in if batch_tokens st + new_tokens > max_context_tokens opts
         then cut_batch env opts st
         else pack_reports env opts
                (st\<lparr>batch_text := batch_text st @ new_context_text,
                    batch_tokens := batch_tokens st + new_tokens,
                    batch_records := batch_records st @ [new_context]\<rparr>)
                rs)"

definition selected_reports :: "environment \<Rightarrow> community_options \<Rightarrow> report list \<Rightarrow> report list" where
  "selected_reports env opts community_reports =
     (let selected = filter is_included_report community_reports
      in if shuffle_data opts then random_shuffle env selected else selected)"

definition packed_state :: "environment \<Rightarrow> community_options \<Rightarrow> report list \<Rightarrow> pack_state" where
  "packed_state env opts community_reports =
     pack_reports env opts
       \<lparr>all_context_text = [], all_context_records = [],
        batch_text = init_batch env opts,
        batch_tokens = int (num_tokens env (init_batch env opts)),
        batch_records = []\<rparr>
       (selected_reports env opts community_reports)"

definition build_community_context ::
  "environment \<Rightarrow> community_options \<Rightarrow> report list
     \<Rightarrow> string list \<times> (string \<rightharpoonup> dataframe)" where
  "build_community_context env opts community_reports =
     (if filter is_included_report community_reports = [] then ([], Map.empty)
      else
        (let st = packed_state env opts community_reports;
             current_batch_ids = set (map (\<lambda>record. Str (hd record)) (batch_records st));
             existing_ids_sets =
               map (\<lambda>df. set (map (\<lambda>row. row ! column_index ''id'' df) (rows df)))
                 (all_context_records st);
             st = (if current_batch_ids \<notin> set existing_ids_sets then cut_batch env opts st
                   else st)
         in if all_context_records st = [] then ([], Map.empty)
            else (all_context_text st,
                  [py_lower (context_name opts) \<mapsto> concat_frames (all_context_records st)])))"

text \<open>\<^verbatim>\<open>build_context\<close> of the global builder.\<close>

definition global_build_context ::
  "environment \<Rightarrow> (graph_query \<Rightarrow> error + report list) \<Rightarrow> string option \<Rightarrow> string
     \<Rightarrow> (string \<times> (string \<rightharpoonup> dataframe)) option \<Rightarrow> community_options
     \<Rightarrow> graph_query list \<times> (error + context_builder_result)" where
  "global_build_context env session user_email query conversation_history opts =
     (let (conversation_history_context, final_context_data) =
            (case conversation_history of
               None \<Rightarrow> ([], Map.empty)
             | Some (ctx, data) \<Rightarrow> (ctx, if ctx \<noteq> [] then data else Map.empty));
          (issued, community_reports) =
            get_community_reports_from_neo4j session user_email query
              (include_community_rank opts) (min_community_rank opts)
              (include_community_weight opts) (normalize_community_weight opts)
      in case community_reports of
           Inl e \<Rightarrow> (issued, Inl e)
         | Inr community_reports \<Rightarrow>
             (let (community_context, community_context_data) =
                    build_community_context env opts community_reports;
                  context_prefix =
                    (if conversation_history_context \<noteq> []
                     then conversation_history_context @ NL @ NL else [])
              in (issued,
                  Inr \<lparr>context_chunks = Batches (map (\<lambda>c. context_prefix @ c) community_context),
                       context_records = final_context_data ++ community_context_data,
                       llm_calls = 0, prompt_tokens = 0, output_tokens = 0\<rparr>)))"



section \<open>Quantities the properties speak about\<close>

text \<open>The weight and the relevance of a report as the specification words them.\<close>

definition spec_weight :: "report \<Rightarrow> real" where
  "spec_weight r =
     real (card (set (entity_names r))) + 0.1 * real (card (set (chunk_texts r)))"

definition searchable_text :: "report \<Rightarrow> string" where
  "searchable_text r =
     (case title r of None \<Rightarrow> [] | Some t \<Rightarrow> t) @ '' '' @ summary r @ '' ''
     @ py_join '' '' (entity_names r)"

definition relevant :: "string \<Rightarrow> report \<Rightarrow> bool" where
  "relevant query r =
     (\<exists>t \<in> set (py_split (py_lower query)).
        length t > 2 \<and> sublist t (py_lower (searchable_text r)))"

text \<open>
  The line and the record of a report, the data frame and the heading of a batch, and the
  token total of a list of reports or chunks (the sum of the token counts of their lines).
  \<open>emitted\<close> says that the one batch of a packing state has been cut.
\<close>

definition report_line :: "environment \<Rightarrow> community_options \<Rightarrow> report \<Rightarrow> string" where
  "report_line env opts r = fst (report_context_text env opts r)"

definition report_record :: "environment \<Rightarrow> community_options \<Rightarrow> report \<Rightarrow> string list" where
  "report_record env opts r = snd (report_context_text env opts r)"

definition batch_frame :: "environment \<Rightarrow> community_options \<Rightarrow> string list list \<Rightarrow> dataframe" where
  "batch_frame env opts recs =
     convert_report_context_to_df env recs (get_header opts)
       (if include_community_weight opts then Some (community_weight_name opts) else None)
       (if include_community_rank opts then Some (community_rank_name opts) else None)"

definition batch_header :: "community_options \<Rightarrow> string" where
  "batch_header opts = ''-----'' @ context_name opts @ ''-----'' @ NL"

definition account :: "environment \<Rightarrow> community_options \<Rightarrow> report list \<Rightarrow> int" where
  "account env opts packed =
     (\<Sum>r\<leftarrow>packed. int (num_tokens env (report_line env opts r)))"

definition emitted :: "environment \<Rightarrow> community_options \<Rightarrow> pack_state \<Rightarrow> bool" where
  "emitted env opts st =
     (all_context_text st
        = [batch_header opts
           @ to_csv env (column_delimiter opts) (batch_frame env opts (batch_records st))]
      \<and> all_context_records st = [batch_frame env opts (batch_records st)]
      \<and> batch_records st \<noteq> [])"

definition chunk_line :: "(real \<Rightarrow> string) \<Rightarrow> chunk \<Rightarrow> string" where
  "chunk_line str_num c = fst (chunk_context_text str_num c)"

definition chunk_account :: "(string \<Rightarrow> nat) option \<Rightarrow> (real \<Rightarrow> string) \<Rightarrow> chunk list \<Rightarrow> int" where
  "chunk_account enc str_num packed =
     (\<Sum>c\<leftarrow>packed. int (count_tokens enc (chunk_line str_num c)))"


section \<open>Concrete data\<close>

subsection \<open>Stub capabilities for concrete runs\<close>

definition stub_services :: "(string, string) services" where
  "stub_services =
     \<lparr>global_search = (\<lambda>q rt ue. ''reports for '' @ ue),
      local_search = (\<lambda>q rt ue. ''chunks for '' @ ue),
      session_run = (\<lambda>q ps. Inr []),
      list_tables = ''[]'',
      get_table_columns = (\<lambda>t. ''[]''),
      custom_query = (\<lambda>q. ''[]'')\<rparr>"

definition stub_classifications :: "string \<rightharpoonup> string" where
  "stub_classifications = [''global_search'' \<mapsto> ''unstructured'']"

definition stub_capabilities :: "nat \<Rightarrow> (string, string) capabilities" where
  "stub_capabilities k =
     \<lparr>reasoning_model =
        (\<lambda>i h. if i = 1 then Inr (FunctionCall ''global_search'' ''{}'')
               else Inr (Message ''done'')),
      json_loads = (\<lambda>s. Inr [''query'' \<mapsto> ''q'', ''response_type'' \<mapsto> ''text'']),
      json_dumps = (\<lambda>r. Inr (case r of Envelope e \<Rightarrow> e | _ \<Rightarrow> [])),
      judge =
        (\<lambda>i h. Inr (Some \<lparr>sufficient = (i = k), reasoning = [],
                 final_answer = (if i = k then Some ''answer'' else None)\<rparr>))\<rparr>"

subsection \<open>Reports, chunks and options\<close>

definition example_reports :: "report list" where
  "example_reports =
     [\<lparr>report_id = ''1'', title = Some ''Alpha Project'', summary = ''Launch plan'',
       full_content = ''Launch plan in full'', entity_names = [''Ada'', ''Bob'', ''Ada''],
       chunk_texts = [''t1''], rank = 3, occurrence = None\<rparr>,
      \<lparr>report_id = ''2'', title = Some ''Budget'', summary = ''Costs'',
       full_content = ''Costs in full'', entity_names = [''Cy''],
       chunk_texts = [], rank = 1, occurrence = None\<rparr>]"

definition bare_report :: report where
  "bare_report =
     \<lparr>report_id = ''3'', title = Some ''Empty'', summary = ''Nothing'',
      full_content = ''Nothing'', entity_names = [], chunk_texts = [], rank = 0,
      occurrence = None\<rparr>"

definition example_chunk :: chunk where
  "example_chunk =
     \<lparr>chunk_id = ''c1'', chunk_text = ''alpha beta gamma'', chunk_entity_names = [''Ada''],
      entity_descriptions = [''a person''], entity_types = [''PERSON''],
      document_titles = [''notes''], embedding = None, relevance_score = 0.5\<rparr>"

definition blank_chunk :: chunk where
  "blank_chunk =
     \<lparr>chunk_id = ''c2'', chunk_text = ''  '', chunk_entity_names = [],
      entity_descriptions = [], entity_types = [],
      document_titles = [], embedding = None, relevance_score = 0.5\<rparr>"

definition example_str_num :: "real \<Rightarrow> string" where
  "example_str_num x = (if x = 0.5 then ''0.5'' else if x = 1 then ''1.0'' else ''0.0'')"

definition example_options :: "int \<Rightarrow> packing_options" where
  "example_options limit =
     \<lparr>column_delimiter = ''|'', shuffle_data = True, max_context_tokens = limit,
      context_name = ''Chunks''\<rparr>"

text \<open>
  An environment whose tokens are whitespace-separated words, whose CSV form has no
  quoting, whose sort is stable and whose shuffle reverses the list.
\<close>

fun cell_text :: "cell \<Rightarrow> string" where
  "cell_text (Str s) = s"
| "cell_text (Num v) = example_str_num v"

definition example_to_csv :: "string \<Rightarrow> dataframe \<Rightarrow> string" where
  "example_to_csv sep df =
     py_join sep (columns df) @ NL
     @ concat (map (\<lambda>row. py_join sep (map cell_text row) @ NL) (rows df))"

definition example_environment :: environment where
  "example_environment =
     \<lparr>num_tokens = (\<lambda>s. length (py_split s)),
      render_num = example_str_num,
      float_of_text = (\<lambda>s. if s = ''0.5'' then 0.5 else if s = ''1.0'' then 1 else 0),
      to_csv = example_to_csv,
      sort_values = (\<lambda>key rows'. sort_key (\<lambda>row. map uminus (key row)) rows'),
      random_shuffle = rev\<rparr>"

definition example_community_options :: "int \<Rightarrow> community_options" where
  "example_community_options limit =
     \<lparr>column_delimiter = ''|'', shuffle_data = True, max_context_tokens = limit,
      context_name = ''Reports'', use_community_summary = True,
      include_community_rank = False, min_community_rank = 0,
      community_rank_name = ''rank'', include_community_weight = False,
      community_weight_name = ''occurrence'', normalize_community_weight = True\<rparr>"

subsection \<open>A graph store with two owners\<close>

record graph_node =
  node_label :: string
  userEmail :: string
  node_key :: string

definition example_graph :: "graph_node list" where
  "example_graph =
     [\<lparr>node_label = ''__Chunk__'', userEmail = ''alice@example.com'', node_key = ''chunk-1''\<rparr>,
      \<lparr>node_label = ''__Chunk__'', userEmail = ''bob@example.com'', node_key = ''chunk-2''\<rparr>]"

text \<open>
  A graph store that answers the query \<^verbatim>\<open>MATCH (c:__Chunk__) RETURN c\<close> with every chunk
  node it holds (the query names no owner, so the parameters do not matter to it).
\<close>

definition example_session_run ::
  "string \<Rightarrow> (string \<times> string) list \<Rightarrow> error + graph_node list" where
  "example_session_run q params =
     (if q = ''MATCH (c:__Chunk__) RETURN c''
      then Inr (filter (\<lambda>n. node_label n = ''__Chunk__'') example_graph)
      else Inr [])"

definition example_graph_services :: "(string, graph_node) services" where
  "example_graph_services =
     \<lparr>global_search = (\<lambda>q rt ue. ''reports for '' @ ue),
      local_search = (\<lambda>q rt ue. ''chunks for '' @ ue),
      session_run = example_session_run,
      list_tables = ''[]'',
      get_table_columns = (\<lambda>t. ''[]''),
      custom_query = (\<lambda>q. ''[]'')\<rparr>"


definition truncated_entry :: "message \<Rightarrow> bool" where
  "truncated_entry e =
     (role e = ''assistant''
      \<and> (\<exists>s. content e = truncate_content s 2000
             \<or> content e = ''Tool result: '' @ truncate_content s 2000))"

definition verbose_capabilities :: "(string, string) capabilities" where
  "verbose_capabilities =
     \<lparr>reasoning_model = (\<lambda>i h. Inr (Message (replicate 2001 (CHR ''x'')))),
      json_loads = (\<lambda>s. Inr Map.empty),
      json_dumps = (\<lambda>r. Inr []),
      judge = (\<lambda>i h. Inr (Some \<lparr>sufficient = True, reasoning = [],
                 final_answer = Some ''answer''\<rparr>))\<rparr>"

definition untitled_report :: report where
  "untitled_report =
     \<lparr>report_id = ''4'', title = None, summary = [], full_content = [],
      entity_names = [''Dee''], chunk_texts = [], rank = 0, occurrence = None\<rparr>"

text \<open>
  A store of community reports with two owners: the first example report belongs to
  \<^verbatim>\<open>alice@example.com\<close>, the second to \<^verbatim>\<open>bob@example.com\<close>. The community query with the
  \<^verbatim>\<open>userEmail\<close> property is answered with the reports of that owner, the query without it
  with all of them.
\<close>

definition example_owned_reports :: "(string \<times> report) list" where
  "example_owned_reports =
     zip [''alice@example.com'', ''bob@example.com''] example_reports"

definition example_community_store :: "graph_query \<Rightarrow> error + report list" where
  "example_community_store q =
     (case q of
        CommunityReportsQuery None \<Rightarrow> Inr (map snd example_owned_reports)
      | CommunityReportsQuery (Some e) \<Rightarrow>
          Inr (map snd (filter (\<lambda>p. fst p = e) example_owned_reports))
      | ChunkDataQuery e d \<Rightarrow> Inr [])"

definition second_chunk :: chunk where
  "second_chunk =
     \<lparr>chunk_id = ''c3'', chunk_text = ''delta epsilon zeta'', chunk_entity_names = [''Bob''],
      entity_descriptions = [''a person''], entity_types = [''PERSON''],
      document_titles = [''notes''], embedding = None, relevance_score = 0.5\<rparr>"

section \<open>Properties\<close>

subsection \<open>History truncation\<close>

lemma truncate_content_length:
  "length (truncate_content s n) \<le> n + 15"
  by (simp add: truncate_content_def)

lemma truncate_content_2000: "length (truncate_content s 2000) \<le> 2015"
  using truncate_content_length [of s 2000] by simp

lemma truncated_entry_length:
  assumes "truncated_entry e"
  shows "length (content e) \<le> 2028"
proof -
  from assms obtain s where
    "content e = truncate_content s 2000
     \<or> content e = ''Tool result: '' @ truncate_content s 2000"
    by (auto simp: truncated_entry_def)
  then show ?thesis
    using truncate_content_2000 [of s] by auto
qed

lemma plan_step_message:
  "reasoning_model caps i h = Inr (Message t) \<Longrightarrow>
     plan_step caps svc cls ue i h
       = Inr (h @ [\<lparr>role = ''assistant'', content = truncate_content t 2000\<rparr>])"
  by (simp add: plan_step_def update_reasoning_model_history_def)

lemma plan_step_function_call:
  "reasoning_model caps i h = Inr (FunctionCall name arguments) \<Longrightarrow>
   json_loads caps arguments = Inr args \<Longrightarrow>
   call_tool svc cls ue name args = Inr tool_result \<Longrightarrow>
   json_dumps caps tool_result = Inr s \<Longrightarrow>
     plan_step caps svc cls ue i h
       = Inr (h @ [\<lparr>role = ''assistant'',
                     content = ''Tool result: '' @ truncate_content s 2000\<rparr>])"
  by (simp add: plan_step_def update_reasoning_model_history_def)

lemma plan_step_appends:
  assumes "plan_step caps svc cls ue i h = Inr h'"
  shows "h' = h \<or> (\<exists>entry. h' = h @ [entry] \<and> truncated_entry entry)"
proof (cases "reasoning_model caps i h")
  case (Inl e)
  with assms show ?thesis by (simp add: plan_step_def)
next
  case (Inr resp)
  show ?thesis
  proof (cases resp)
    case (FunctionCall name arguments)
    with Inr assms show ?thesis
      by (auto simp: plan_step_def update_reasoning_model_history_def truncated_entry_def
          split: sum.splits)
  next
    case (Message t)
    with Inr assms show ?thesis
      by (auto simp: plan_step_def update_reasoning_model_history_def truncated_entry_def)
  next
    case (OtherOutput x)
    with Inr assms show ?thesis by (simp add: plan_step_def)
  qed
qed

lemma run_loop_history:
  "\<exists>added. final_history (run_loop caps svc cls ue n i h) = h @ added
      \<and> i + length added \<le> iterations (run_loop caps svc cls ue n i h)
      \<and> list_all truncated_entry added"
proof (induction n arbitrary: i h)
  case 0
  show ?case by simp
next
  case (Suc n)
  show ?case
  proof (cases "plan_step caps svc cls ue (Suc i) h")
    case (Inl e)
    then show ?thesis by simp
  next
    case (Inr h')
    then obtain step where step: "h' = h @ step" "length step \<le> 1" "list_all truncated_entry step"
      using plan_step_appends [of caps svc cls ue "Suc i" h h'] by (auto intro: that [of "[]"])
    show ?thesis
    proof (cases "evaluate_sufficiency caps (Suc i) (get_reasoning_model_history h')")
      case (Inl e)
      with Inr step show ?thesis by (intro exI [of _ step]) simp
    next
      case v: (Inr evaluation)
      show ?thesis
      proof (cases "sufficient evaluation \<and> truthy (final_answer evaluation)")
        case True
        with Inr v step show ?thesis by (intro exI [of _ step]) simp
      next
        case False
        obtain added where a: "final_history (run_loop caps svc cls ue n (Suc i) h') = h' @ added"
          "Suc i + length added \<le> iterations (run_loop caps svc cls ue n (Suc i) h')"
          "list_all truncated_entry added"
          using Suc.IH [of "Suc i" h'] by blast
        have r: "run_loop caps svc cls ue (Suc n) i h = run_loop caps svc cls ue n (Suc i) h'"
          using Inr v False by auto
        show ?thesis
          unfolding r using a step by (intro exI [of _ "step @ added"]) simp
      qed
    qed
  qed
qed

text \<open>
  Claim C7. A payload of at most 2000 characters is appended unchanged; a longer one is
  cut to its first 2000 characters and the marker \<^verbatim>\<open>... [truncated]\<close> is suffixed, and
  the marker is suffixed in no other case. In a pass of the loop a message of the
  reasoning model appends one assistant entry holding its truncated text, and a tool call
  appends one assistant entry holding \<^verbatim>\<open>Tool result: \<close> and the truncated JSON form of
  the result; a pass appends nothing else. Hence the history at the end of a run is the
  initial history followed by at most one entry per pass, each such entry of at most
  2000 + 15 + 13 characters.
\<close>

theorem history_entry_truncated:
  "truncate_content s 2000 =
     (if length s \<le> 2000 then s else take 2000 s @ ''... [truncated]'')
   \<and> (dumps r = Inr s \<longrightarrow>
        update_reasoning_model_history dumps render h r ''function_call''
          = Inr (h @ [\<lparr>role = ''assistant'',
                        content = ''Tool result: '' @ truncate_content s 2000\<rparr>]))
   \<and> update_reasoning_model_history dumps render h r ''message''
        = Inr (h @ [\<lparr>role = ''assistant'', content = truncate_content (render r) 2000\<rparr>])
   \<and> (reasoning_model caps i h = Inr (Message t) \<longrightarrow>
        plan_step caps svc cls ue i h
          = Inr (h @ [\<lparr>role = ''assistant'', content = truncate_content t 2000\<rparr>]))
   \<and> (reasoning_model caps i h = Inr (FunctionCall name arguments)
        \<and> json_loads caps arguments = Inr args
        \<and> call_tool svc cls ue name args = Inr tool_result
        \<and> json_dumps caps tool_result = Inr s \<longrightarrow>
        plan_step caps svc cls ue i h
          = Inr (h @ [\<lparr>role = ''assistant'',
                        content = ''Tool result: '' @ truncate_content s 2000\<rparr>]))
   \<and> (plan_step caps svc cls ue i h = Inr h' \<longrightarrow>
        h' = h \<or> (\<exists>entry. h' = h @ [entry] \<and> truncated_entry entry
                       \<and> length (content entry) \<le> 2028))
   \<and> (\<exists>added. final_history (run caps svc cls ue p q) = initial_history p q @ added
        \<and> length added \<le> iterations (run caps svc cls ue p q)
        \<and> list_all (\<lambda>entry. truncated_entry entry \<and> length (content entry) \<le> 2028) added)"
proof (intro conjI impI)
  show "truncate_content s 2000 =
     (if length s \<le> 2000 then s else take 2000 s @ ''... [truncated]'')"
    by (simp add: truncate_content_def)
  show "update_reasoning_model_history dumps render h r ''function_call''
          = Inr (h @ [\<lparr>role = ''assistant'',
                        content = ''Tool result: '' @ truncate_content s 2000\<rparr>])"
    if "dumps r = Inr s"
    using that by (simp add: update_reasoning_model_history_def)
  show "update_reasoning_model_history dumps render h r ''message''
        = Inr (h @ [\<lparr>role = ''assistant'', content = truncate_content (render r) 2000\<rparr>])"
    by (simp add: update_reasoning_model_history_def)
  show "plan_step caps svc cls ue i h
          = Inr (h @ [\<lparr>role = ''assistant'', content = truncate_content t 2000\<rparr>])"
    if "reasoning_model caps i h = Inr (Message t)"
    using that by (rule plan_step_message)
  show "plan_step caps svc cls ue i h
          = Inr (h @ [\<lparr>role = ''assistant'',
                        content = ''Tool result: '' @ truncate_content s 2000\<rparr>])"
    if "reasoning_model caps i h = Inr (FunctionCall name arguments)
        \<and> json_loads caps arguments = Inr args
        \<and> call_tool svc cls ue name args = Inr tool_result
        \<and> json_dumps caps tool_result = Inr s"
    using that plan_step_function_call [of caps i h name arguments args svc cls ue tool_result s]
    by blast
  show "h' = h \<or> (\<exists>entry. h' = h @ [entry] \<and> truncated_entry entry
                       \<and> length (content entry) \<le> 2028)"
    if "plan_step caps svc cls ue i h = Inr h'"
    using plan_step_appends [OF that] truncated_entry_length by blast
  obtain added where a: "final_history (run caps svc cls ue p q) = initial_history p q @ added"
    "0 + length added \<le> iterations (run caps svc cls ue p q)"
    "list_all truncated_entry added"
    using run_loop_history [of caps svc cls ue max_plans 0 "initial_history p q"]
    unfolding run_def by blast
  have "list_all (\<lambda>entry. truncated_entry entry \<and> length (content entry) \<le> 2028) added"
    using a(3) truncated_entry_length by (auto simp: list_all_iff)
  with a show "\<exists>added. final_history (run caps svc cls ue p q) = initial_history p q @ added
        \<and> length added \<le> iterations (run caps svc cls ue p q)
        \<and> list_all (\<lambda>entry. truncated_entry entry \<and> length (content entry) \<le> 2028) added"
    by auto
qed

theorem history_entry_truncated_witness:
  "update_reasoning_model_history (\<lambda>r. Inr r) (\<lambda>r. r) []
       (replicate 2001 (CHR ''x'')) ''function_call''
     = Inr [\<lparr>role = ''assistant'',
             content = ''Tool result: '' @ replicate 2000 (CHR ''x'') @ ''... [truncated]''\<rparr>]
   \<and> update_reasoning_model_history (\<lambda>r. Inr r) (\<lambda>r. r) [] ''ok'' ''message''
     = Inr [\<lparr>role = ''assistant'', content = ''ok''\<rparr>]
   \<and> plan_step verbose_capabilities stub_services stub_classifications ''a@example.com'' 1 []
     = Inr [\<lparr>role = ''assistant'',
             content = replicate 2000 (CHR ''x'') @ ''... [truncated]''\<rparr>]
   \<and> plan_step (stub_capabilities 2) stub_services stub_classifications ''a@example.com'' 1 []
     = Inr [\<lparr>role = ''assistant'', content = ''Tool result: reports for a@example.com''\<rparr>]
   \<and> final_history (run verbose_capabilities stub_services stub_classifications
         ''a@example.com'' ''prompt'' ''question'')
     = initial_history ''prompt'' ''question''
       @ [\<lparr>role = ''assistant'',
            content = replicate 2000 (CHR ''x'') @ ''... [truncated]''\<rparr>]"
proof -
  have long: "truncate_content (replicate 2001 (CHR ''x'')) 2000
      = replicate 2000 (CHR ''x'') @ ''... [truncated]''"
    by (simp add: truncate_content_def)
  have short: "truncate_content ''ok'' 2000 = ''ok''"
    "truncate_content ''reports for a@example.com'' 2000 = ''reports for a@example.com''"
    by (simp_all add: truncate_content_def)
  have a: "update_reasoning_model_history (\<lambda>r. Inr r) (\<lambda>r. r) []
       (replicate 2001 (CHR ''x'')) ''function_call''
     = Inr [\<lparr>role = ''assistant'',
             content = ''Tool result: '' @ replicate 2000 (CHR ''x'') @ ''... [truncated]''\<rparr>]"
    using history_entry_truncated
      [where s = "replicate 2001 (CHR ''x'')" and dumps = "\<lambda>r. Inr r"
         and r = "replicate 2001 (CHR ''x'')" and h = "[]" and render = "\<lambda>r. r",
       THEN conjunct2, THEN conjunct1]
    unfolding long by simp
  have b: "update_reasoning_model_history (\<lambda>r. Inr r) (\<lambda>r. r) [] ''ok'' ''message''
     = Inr [\<lparr>role = ''assistant'', content = ''ok''\<rparr>]"
    using history_entry_truncated
      [where dumps = "\<lambda>r. Inr r" and r = "''ok''" and h = "[]" and render = "\<lambda>r. r",
       THEN conjunct2, THEN conjunct2, THEN conjunct1]
    unfolding short by simp
  have c: "plan_step verbose_capabilities stub_services stub_classifications
       ''a@example.com'' 1 []
     = Inr [\<lparr>role = ''assistant'',
             content = replicate 2000 (CHR ''x'') @ ''... [truncated]''\<rparr>]"
    using history_entry_truncated
      [where caps = verbose_capabilities and i = 1 and h = "[]"
         and t = "replicate 2001 (CHR ''x'')" and svc = stub_services
         and cls = stub_classifications and ue = "''a@example.com''",
       THEN conjunct2, THEN conjunct2, THEN conjunct2, THEN conjunct1]
    unfolding long by (simp add: verbose_capabilities_def)
  have d: "plan_step (stub_capabilities 2) stub_services stub_classifications
       ''a@example.com'' 1 []
     = Inr [\<lparr>role = ''assistant'', content = ''Tool result: reports for a@example.com''\<rparr>]"
    using history_entry_truncated
      [where caps = "stub_capabilities 2" and i = 1 and h = "[]"
         and name = "''global_search''" and arguments = "''{}''"
         and args = "[''query'' \<mapsto> ''q'', ''response_type'' \<mapsto> ''text'']"
         and svc = stub_services and cls = stub_classifications
         and ue = "''a@example.com''"
         and tool_result = "Envelope ''reports for a@example.com''"
         and s = "''reports for a@example.com''",
       THEN conjunct2, THEN conjunct2, THEN conjunct2, THEN conjunct2, THEN conjunct1]
    unfolding short
    by (simp add: stub_capabilities_def stub_services_def stub_classifications_def
        call_tool_def unstructured_search_def arg_def)
  have e: "final_history (run verbose_capabilities stub_services stub_classifications
         ''a@example.com'' ''prompt'' ''question'')
     = initial_history ''prompt'' ''question''
       @ [\<lparr>role = ''assistant'',
            content = replicate 2000 (CHR ''x'') @ ''... [truncated]''\<rparr>]"
  proof -
    have ten: "max_plans = Suc 9" by (simp add: max_plans_def)
    have p: "plan_step verbose_capabilities stub_services stub_classifications
        ''a@example.com'' (Suc 0) (initial_history ''prompt'' ''question'')
      = Inr (initial_history ''prompt'' ''question''
           @ [\<lparr>role = ''assistant'',
                content = replicate 2000 (CHR ''x'') @ ''... [truncated]''\<rparr>])"
      using plan_step_message [of verbose_capabilities "Suc 0"
          "initial_history ''prompt'' ''question''" "replicate 2001 (CHR ''x'')"
          stub_services stub_classifications "''a@example.com''"]
      unfolding long by (simp add: verbose_capabilities_def)
    show ?thesis
      unfolding run_def ten run_loop.simps p
      by (simp add: evaluate_sufficiency_def verbose_capabilities_def)
  qed
  from a b c d e show ?thesis by blast
qed


subsection \<open>The reasoning loop is bounded\<close>

lemma stub_plan_step:
  "\<exists>h'. plan_step (stub_capabilities k) stub_services stub_classifications ue i h = Inr h'"
  by (simp add: plan_step_def stub_capabilities_def stub_services_def
      stub_classifications_def call_tool_def unstructured_search_def arg_def
      update_reasoning_model_history_def)

lemma stub_history_at:
  "\<exists>h. history_at (stub_capabilities k) stub_services stub_classifications ue h0 j = Inr h"
proof (induction j)
  case 0
  show ?case by simp
next
  case (Suc j)
  then obtain h where
    "history_at (stub_capabilities k) stub_services stub_classifications ue h0 j = Inr h"
    by blast
  then show ?case
    using stub_plan_step [of k ue "Suc j" h] by simp
qed

lemma stub_verdict_at:
  "verdict_at (stub_capabilities k) stub_services stub_classifications ue h0 j =
     Inr \<lparr>sufficient = (j = k), reasoning = [],
          final_answer = (if j = k then Some ''answer'' else None)\<rparr>"
proof -
  obtain h where
    "history_at (stub_capabilities k) stub_services stub_classifications ue h0 j = Inr h"
    using stub_history_at by blast
  then show ?thesis
    by (simp add: verdict_at_def evaluate_sufficiency_def stub_capabilities_def)
qed

lemma run_loop_iterations_le:
  "iterations (run_loop caps svc cls ue n i h) \<le> i + n"
proof (induction n arbitrary: i h)
  case 0
  then show ?case by simp
next
  case (Suc n)
  have "\<And>h'. iterations (run_loop caps svc cls ue n (Suc i) h') \<le> Suc (i + n)"
    using Suc.IH [of "Suc i"] by simp
  then show ?case by (auto split: sum.splits)
qed

lemma run_loop_accept:
  assumes "history_at caps svc cls ue h0 i = Inr h"
    and "i < k" and "k \<le> i + n"
    and "accepts (verdict_at caps svc cls ue h0 k)"
    and "\<And>j. i < j \<Longrightarrow> j < k \<Longrightarrow> continues (verdict_at caps svc cls ue h0 j)"
  shows "\<exists>v hk. verdict_at caps svc cls ue h0 k = Inr v
           \<and> history_at caps svc cls ue h0 k = Inr hk
           \<and> run_loop caps svc cls ue n i h =
               \<lparr>iterations = k, answer = Inr (final_answer v), final_history = hk\<rparr>"
  using assms
proof (induction n arbitrary: i h)
  case 0
  then show ?case by simp
next
  case (Suc n)
  show ?case
  proof (cases "k = Suc i")
    case True
    with Suc.prems(1,4) show ?thesis
      by (auto simp: accepts_def verdict_at_def split: sum.splits)
  next
    case False
    with Suc.prems have lt: "Suc i < k" and le: "k \<le> Suc i + n" by simp_all
    have c: "continues (verdict_at caps svc cls ue h0 (Suc i))"
      using Suc.prems(5) [of "Suc i"] lt by simp
    then obtain h' v' where h': "plan_step caps svc cls ue (Suc i) h = Inr h'"
      and v': "evaluate_sufficiency caps (Suc i) (get_reasoning_model_history h') = Inr v'"
      and nv: "\<not> (sufficient v' \<and> truthy (final_answer v'))"
      using Suc.prems(1)
      by (auto simp: continues_def verdict_at_def split: sum.splits)
    have hs: "history_at caps svc cls ue h0 (Suc i) = Inr h'"
      using Suc.prems(1) h' by simp
    have step: "run_loop caps svc cls ue (Suc n) i h = run_loop caps svc cls ue n (Suc i) h'"
      using h' v' nv by auto
    have "\<exists>v hk. verdict_at caps svc cls ue h0 k = Inr v
           \<and> history_at caps svc cls ue h0 k = Inr hk
           \<and> run_loop caps svc cls ue n (Suc i) h' =
               \<lparr>iterations = k, answer = Inr (final_answer v), final_history = hk\<rparr>"
      using Suc.IH [OF hs lt le Suc.prems(4)] Suc.prems(5) by simp
    with step show ?thesis by simp
  qed
qed

lemma run_loop_exhausted:
  assumes "history_at caps svc cls ue h0 i = Inr h"
    and "\<And>j. i < j \<Longrightarrow> j \<le> i + n \<Longrightarrow> continues (verdict_at caps svc cls ue h0 j)"
  shows "\<exists>hn. history_at caps svc cls ue h0 (i + n) = Inr hn
           \<and> run_loop caps svc cls ue n i h =
               \<lparr>iterations = i + n, answer = Inr None, final_history = hn\<rparr>"
  using assms
proof (induction n arbitrary: i h)
  case 0
  then show ?case by simp
next
  case (Suc n)
  have c: "continues (verdict_at caps svc cls ue h0 (Suc i))"
    using Suc.prems(2) [of "Suc i"] by simp
  then obtain h' v' where h': "plan_step caps svc cls ue (Suc i) h = Inr h'"
    and v': "evaluate_sufficiency caps (Suc i) (get_reasoning_model_history h') = Inr v'"
    and nv: "\<not> (sufficient v' \<and> truthy (final_answer v'))"
    using Suc.prems(1)
    by (auto simp: continues_def verdict_at_def split: sum.splits)
  have hs: "history_at caps svc cls ue h0 (Suc i) = Inr h'"
    using Suc.prems(1) h' by simp
  have step: "run_loop caps svc cls ue (Suc n) i h = run_loop caps svc cls ue n (Suc i) h'"
    using h' v' nv by auto
  have "\<exists>hn. history_at caps svc cls ue h0 (Suc i + n) = Inr hn
           \<and> run_loop caps svc cls ue n (Suc i) h' =
               \<lparr>iterations = Suc i + n, answer = Inr None, final_history = hn\<rparr>"
    using Suc.IH [OF hs] Suc.prems(2) by simp
  with step show ?case by simp
qed

text \<open>
  Claim C6. A run makes at most 10 passes. When the judge's verdict at pass \<open>k\<close>
  (\<open>1 \<le> k \<le> 10\<close>) is the first that is sufficient and carries a final answer (a
  non-empty text), the run ends at pass \<open>k\<close> and returns that answer. When no verdict of
  the 10 passes is such, the run makes exactly 10 passes and returns \<^verbatim>\<open>None\<close>. The
  verdicts are those of a run in which no capability raises.
\<close>

theorem run_terminates_within_max_plans:
  "iterations (run caps svc cls ue p q) \<le> 10
   \<and> (1 \<le> k \<and> k \<le> 10
        \<and> accepts (verdict_at caps svc cls ue (initial_history p q) k)
        \<and> (\<forall>j. 1 \<le> j \<and> j < k \<longrightarrow> continues (verdict_at caps svc cls ue (initial_history p q) j))
      \<longrightarrow> iterations (run caps svc cls ue p q) = k
          \<and> (\<exists>v a. verdict_at caps svc cls ue (initial_history p q) k = Inr v
                 \<and> final_answer v = Some a \<and> a \<noteq> []
                 \<and> answer (run caps svc cls ue p q) = Inr (Some a)))
   \<and> ((\<forall>j. 1 \<le> j \<and> j \<le> 10 \<longrightarrow> continues (verdict_at caps svc cls ue (initial_history p q) j))
      \<longrightarrow> iterations (run caps svc cls ue p q) = 10
          \<and> answer (run caps svc cls ue p q) = Inr None)"
proof (intro conjI impI)
  show "iterations (run caps svc cls ue p q) \<le> 10"
    using run_loop_iterations_le [of caps svc cls ue max_plans 0 "initial_history p q"]
    by (simp add: run_def max_plans_def)
next
  assume a: "1 \<le> k \<and> k \<le> 10
        \<and> accepts (verdict_at caps svc cls ue (initial_history p q) k)
        \<and> (\<forall>j. 1 \<le> j \<and> j < k \<longrightarrow> continues (verdict_at caps svc cls ue (initial_history p q) j))"
  have h0: "history_at caps svc cls ue (initial_history p q) 0 = Inr (initial_history p q)"
    by simp
  obtain v hk where v: "verdict_at caps svc cls ue (initial_history p q) k = Inr v"
    and r: "run_loop caps svc cls ue 10 0 (initial_history p q) =
               \<lparr>iterations = k, answer = Inr (final_answer v), final_history = hk\<rparr>"
    using run_loop_accept [OF h0, of k 10] a by auto
  from r show "iterations (run caps svc cls ue p q) = k"
    by (simp add: run_def max_plans_def)
  from a v obtain b where b: "final_answer v = Some b" "b \<noteq> []"
    by (cases "final_answer v") (auto simp: accepts_def)
  with v r show "\<exists>v a. verdict_at caps svc cls ue (initial_history p q) k = Inr v
                 \<and> final_answer v = Some a \<and> a \<noteq> []
                 \<and> answer (run caps svc cls ue p q) = Inr (Some a)"
    by (simp add: run_def max_plans_def)
next
  assume a: "\<forall>j. 1 \<le> j \<and> j \<le> 10 \<longrightarrow> continues (verdict_at caps svc cls ue (initial_history p q) j)"
  have h0: "history_at caps svc cls ue (initial_history p q) 0 = Inr (initial_history p q)"
    by simp
  obtain hn where r: "run_loop caps svc cls ue 10 0 (initial_history p q) =
               \<lparr>iterations = 0 + 10, answer = Inr None, final_history = hn\<rparr>"
    using run_loop_exhausted [OF h0, of 10] a by auto
  from r show "iterations (run caps svc cls ue p q) = 10"
    by (simp add: run_def max_plans_def)
  from r show "answer (run caps svc cls ue p q) = Inr None"
    by (simp add: run_def max_plans_def)
qed

theorem run_terminates_within_max_plans_witness:
  "iterations (run (stub_capabilities 2) stub_services stub_classifications
       ''a@example.com'' ''prompt'' ''question'') = 2
   \<and> answer (run (stub_capabilities 2) stub_services stub_classifications
       ''a@example.com'' ''prompt'' ''question'') = Inr (Some ''answer'')
   \<and> iterations (run (stub_capabilities 0) stub_services stub_classifications
       ''a@example.com'' ''prompt'' ''question'') = 10
   \<and> answer (run (stub_capabilities 0) stub_services stub_classifications
       ''a@example.com'' ''prompt'' ''question'') = Inr None"
proof -
  have two: "iterations (run (stub_capabilities 2) stub_services stub_classifications
       ''a@example.com'' ''prompt'' ''question'') = 2
   \<and> answer (run (stub_capabilities 2) stub_services stub_classifications
       ''a@example.com'' ''prompt'' ''question'') = Inr (Some ''answer'')"
    using run_terminates_within_max_plans
      [of "stub_capabilities 2" stub_services stub_classifications
          "''a@example.com''" "''prompt''" "''question''" 2]
    by (auto simp add: stub_verdict_at accepts_def continues_def)
  have none: "iterations (run (stub_capabilities 0) stub_services stub_classifications
       ''a@example.com'' ''prompt'' ''question'') = 10
   \<and> answer (run (stub_capabilities 0) stub_services stub_classifications
       ''a@example.com'' ''prompt'' ''question'') = Inr None"
    using run_terminates_within_max_plans
      [of "stub_capabilities 0" stub_services stub_classifications
          "''a@example.com''" "''prompt''" "''question''" 0]
    by (simp add: stub_verdict_at continues_def)
  from two none show ?thesis by simp
qed


subsection \<open>Community weights\<close>

lemma py_max_Max: "xs \<noteq> [] \<Longrightarrow> py_max xs = Max (set xs)"
  by (cases xs) (simp_all add: Max.set_eq_fold [symmetric])

lemma spec_weight_nonneg: "0 \<le> spec_weight r"
  by (simp add: spec_weight_def)

lemma weights_unnormalised:
  "map occurrence (compute_community_weights_neo4j reports False) =
     map (\<lambda>r. Some (spec_weight r)) reports"
  by (simp add: compute_community_weights_neo4j_def spec_weight_def length_remdups_card_conv)

lemma weighted_occurrence:
  "map get_occurrence
     (map (\<lambda>r. r\<lparr>occurrence := Some (real (length (remdups (entity_names r)))
                   + real (length (remdups (chunk_texts r))) * 0.1)\<rparr>) reports)
   = map spec_weight reports"
  by (simp add: get_occurrence_def spec_weight_def length_remdups_card_conv)

lemma weights_normalised_eq:
  assumes "reports \<noteq> []"
  shows "map occurrence (compute_community_weights_neo4j reports True) =
     (if Max (set (map spec_weight reports)) > 0
      then map (\<lambda>r. Some (spec_weight r / Max (set (map spec_weight reports)))) reports
      else map (\<lambda>r. Some (spec_weight r)) reports)"
proof -
  let ?weighted = "map (\<lambda>r. r\<lparr>occurrence := Some (real (length (remdups (entity_names r)))
                   + real (length (remdups (chunk_texts r))) * 0.1)\<rparr>) reports"
  have m: "py_max (map get_occurrence ?weighted) = Max (set (map spec_weight reports))"
    using assms by (simp only: weighted_occurrence) (simp add: py_max_Max)
  have c: "compute_community_weights_neo4j reports True =
     (if Max (set (map spec_weight reports)) > 0
      then map (\<lambda>r. r\<lparr>occurrence := Some (get_occurrence r / Max (set (map spec_weight reports)))\<rparr>) ?weighted
      else ?weighted)"
    unfolding compute_community_weights_neo4j_def Let_def using assms m by simp
  show ?thesis
    unfolding c
    by (simp add: get_occurrence_def spec_weight_def length_remdups_card_conv o_def)
qed

lemma Max_scaled:
  fixes ws :: "real list"
  assumes "ws \<noteq> []" and "0 < Max (set ws)"
  shows "Max (set (map (\<lambda>w. w / Max (set ws)) ws)) = 1"
proof -
  let ?M = "Max (set ws)"
  have "mono (\<lambda>w. w / ?M)"
    using assms(2) by (simp add: mono_def divide_right_mono)
  then have "(\<lambda>w. w / ?M) ?M = Max ((\<lambda>w. w / ?M) ` set ws)"
    using assms(1) by (intro mono_Max_commute) simp_all
  then show ?thesis using assms(2) by simp
qed

text \<open>
  Claim C4. For a non-empty batch, every report's weight is the number of its distinct
  entity names plus 0.1 times the number of its distinct chunk texts. With normalisation,
  when the largest such weight is positive every weight is divided by it and the largest
  weight becomes 1; when it is 0 every weight stays 0.
\<close>

theorem community_weights_normalised:
  "reports \<noteq> [] \<longrightarrow>
     map occurrence (compute_community_weights_neo4j reports False) =
       map (\<lambda>r. Some (spec_weight r)) reports
   \<and> (0 < Max (set (map spec_weight reports)) \<longrightarrow>
        map occurrence (compute_community_weights_neo4j reports True) =
          map (\<lambda>r. Some (spec_weight r / Max (set (map spec_weight reports)))) reports
      \<and> Max (set (map get_occurrence (compute_community_weights_neo4j reports True))) = 1)
   \<and> (Max (set (map spec_weight reports)) = 0 \<longrightarrow>
        map occurrence (compute_community_weights_neo4j reports True) =
          map (\<lambda>r. Some 0) reports)"
proof (intro impI conjI)
  assume ne: "reports \<noteq> []"
  show "map occurrence (compute_community_weights_neo4j reports False) =
       map (\<lambda>r. Some (spec_weight r)) reports"
    by (rule weights_unnormalised)
  {
    assume pos: "0 < Max (set (map spec_weight reports))"
    show eq: "map occurrence (compute_community_weights_neo4j reports True) =
          map (\<lambda>r. Some (spec_weight r / Max (set (map spec_weight reports)))) reports"
      using weights_normalised_eq [OF ne] pos by simp
    have "map get_occurrence (compute_community_weights_neo4j reports True) =
        map (\<lambda>x. case x of None \<Rightarrow> 0 | Some w \<Rightarrow> w)
          (map occurrence (compute_community_weights_neo4j reports True))"
      by (simp add: get_occurrence_def o_def)
    also have "\<dots> = map (\<lambda>w. w / Max (set (map spec_weight reports))) (map spec_weight reports)"
      unfolding eq by (simp add: o_def)
    finally show "Max (set (map get_occurrence (compute_community_weights_neo4j reports True))) = 1"
      using Max_scaled [of "map spec_weight reports"] ne pos by simp
  }
  {
    assume z: "Max (set (map spec_weight reports)) = 0"
    have "\<And>r. r \<in> set reports \<Longrightarrow> spec_weight r = 0"
    proof -
      fix r assume "r \<in> set reports"
      then have "spec_weight r \<le> Max (set (map spec_weight reports))"
        by (intro Max_ge) simp_all
      with z spec_weight_nonneg [of r] show "spec_weight r = 0" by simp
    qed
    then show "map occurrence (compute_community_weights_neo4j reports True) =
          map (\<lambda>r. Some 0) reports"
      using weights_normalised_eq [OF ne] z by simp
  }
qed

theorem community_weights_normalised_witness:
  "map occurrence (compute_community_weights_neo4j example_reports False)
     = [Some 2.1, Some 1]
   \<and> map occurrence (compute_community_weights_neo4j example_reports True)
     = [Some 1, Some (10 / 21)]
   \<and> Max (set (map get_occurrence (compute_community_weights_neo4j example_reports True))) = 1
   \<and> map occurrence (compute_community_weights_neo4j [bare_report] True) = [Some 0]"
proof -
  have w: "map spec_weight example_reports = [2.1, 1]"
    unfolding spec_weight_def length_remdups_card_conv [symmetric]
    by (simp add: example_reports_def)
  have m: "Max (set (map spec_weight example_reports)) = 2.1"
    unfolding w by simp
  have e: "example_reports \<noteq> []"
    by (simp add: example_reports_def)
  have l1: "map (\<lambda>r. Some (spec_weight r)) example_reports = [Some 2.1, Some 1]"
    using w by (simp add: example_reports_def)
  have l2: "map (\<lambda>r. Some (spec_weight r / 2.1)) example_reports = [Some 1, Some (10 / 21)]"
    using w by (simp add: example_reports_def)
  have pos: "0 < Max (set (map spec_weight example_reports))"
    unfolding m by simp
  have t: "map occurrence (compute_community_weights_neo4j example_reports False) =
       map (\<lambda>r. Some (spec_weight r)) example_reports
     \<and> map occurrence (compute_community_weights_neo4j example_reports True) =
          map (\<lambda>r. Some (spec_weight r / Max (set (map spec_weight example_reports))))
            example_reports
     \<and> Max (set (map get_occurrence
          (compute_community_weights_neo4j example_reports True))) = 1"
    using community_weights_normalised [of example_reports] e pos by blast
  have a: "map occurrence (compute_community_weights_neo4j example_reports False)
     = [Some 2.1, Some 1]
   \<and> map occurrence (compute_community_weights_neo4j example_reports True)
     = [Some 1, Some (10 / 21)]
   \<and> Max (set (map get_occurrence (compute_community_weights_neo4j example_reports True))) = 1"
    using t unfolding m l1 l2 by blast
  have z: "map spec_weight [bare_report] = [0]"
    unfolding spec_weight_def length_remdups_card_conv [symmetric]
    by (simp add: bare_report_def)
  have zm: "Max (set (map spec_weight [bare_report])) = 0"
    unfolding z by simp
  have b: "map occurrence (compute_community_weights_neo4j [bare_report] True) = [Some 0]"
    using community_weights_normalised [of "[bare_report]"] zm by simp
  from a b show ?thesis by blast
qed


subsection \<open>Packing chunks\<close>

lemma chunk_context_text_nonempty: "fst (chunk_context_text str_num c) \<noteq> []"
  by (simp add: chunk_context_text_def Let_def)

lemma pack_chunks_extends:
  "\<exists>ys. fst (pack_chunks enc str_num limit (ctx, recs, t) cs) = ctx @ ys"
proof (induction cs arbitrary: ctx recs t)
  case Nil
  show ?case by simp
next
  case (Cons c cs)
  obtain ys where
    "fst (pack_chunks enc str_num limit
        (ctx @ [fst (chunk_context_text str_num c)], recs @ [snd (chunk_context_text str_num c)],
         t + int (count_tokens enc (fst (chunk_context_text str_num c)))) cs)
     = (ctx @ [fst (chunk_context_text str_num c)]) @ ys"
    using Cons.IH by blast
  then show ?case
    by (auto simp: Let_def split_beta)
qed

lemma pack_chunks_first:
  "\<exists>ys. fst (pack_chunks enc str_num limit ([], [], t) (c # cs))
     = fst (chunk_context_text str_num c) # ys"
proof -
  obtain ys where
    "fst (pack_chunks enc str_num limit
        ([] @ [fst (chunk_context_text str_num c)], [] @ [snd (chunk_context_text str_num c)],
         t + int (count_tokens enc (fst (chunk_context_text str_num c)))) cs)
     = ([] @ [fst (chunk_context_text str_num c)]) @ ys"
    using pack_chunks_extends by blast
  then show ?thesis
    by (auto simp: Let_def split_beta)
qed

lemma py_join_nonempty: "x \<noteq> [] \<Longrightarrow> py_join sep (x # xs) \<noteq> []"
  by (cases xs) simp_all

lemma build_chunks_context_text_nonempty:
  assumes "filter is_included_chunk chunks_data \<noteq> []"
  shows "\<exists>t. build_chunks_context enc str_num chunks_data opts = Inr (t, Map.empty) \<and> t \<noteq> []"
proof -
  from assms obtain c cs where inc: "filter is_included_chunk chunks_data = c # cs"
    by (cases "filter is_included_chunk chunks_data") auto
  from assms have ne: "chunks_data \<noteq> []" by auto
  obtain ys where f: "fst (pack_chunks enc str_num (max_context_tokens opts) ([], [], 0) (c # cs))
     = fst (chunk_context_text str_num c) # ys"
    using pack_chunks_first by blast
  obtain a b d where p: "pack_chunks enc str_num (max_context_tokens opts) ([], [], 0) (c # cs)
     = (a, b, d)"
    by (cases "pack_chunks enc str_num (max_context_tokens opts) ([], [], 0) (c # cs)") auto
  with f have a: "a = fst (chunk_context_text str_num c) # ys" by simp
  have "py_join (NL @ NL @ ''---'' @ NL @ NL) a \<noteq> []"
    unfolding a by (rule py_join_nonempty) (rule chunk_context_text_nonempty)
  then show ?thesis
    using ne inc p a unfolding build_chunks_context_def Let_def by simp
qed

lemma build_chunks_context_no_records:
  "build_chunks_context enc str_num chunks_data opts = Inr (t, d) \<Longrightarrow> d = Map.empty"
  by (auto simp: build_chunks_context_def Let_def split_beta split: if_splits)

text \<open>
  Claim C10. When the list of chunks is not empty and every chunk's text is empty or
  whitespace only, no chunk is included and the read of \<^verbatim>\<open>included_chunks[0]\<close> for
  the log line raises \<^verbatim>\<open>IndexError\<close>. The empty result \<^verbatim>\<open>("", {})\<close> is returned for
  the empty list and for no other input.
\<close>

theorem whitespace_only_chunks_raise:
  "(chunks_data \<noteq> [] \<and> list_all (\<lambda>c. py_strip (chunk_text c) = []) chunks_data
      \<longrightarrow> build_chunks_context enc str_num chunks_data opts = Inl IndexError)
   \<and> ((build_chunks_context enc str_num chunks_data opts = Inr ([], Map.empty))
        = (chunks_data = []))"
proof (intro conjI impI)
  assume a: "chunks_data \<noteq> [] \<and> list_all (\<lambda>c. py_strip (chunk_text c) = []) chunks_data"
  then have "filter is_included_chunk chunks_data = []"
    by (simp add: is_included_chunk_def list_all_iff)
  with a show "build_chunks_context enc str_num chunks_data opts = Inl IndexError"
    by (simp add: build_chunks_context_def)
next
  show "(build_chunks_context enc str_num chunks_data opts = Inr ([], Map.empty))
        = (chunks_data = [])"
  proof (cases "chunks_data = []")
    case True
    then show ?thesis by (simp add: build_chunks_context_def)
  next
    case ne: False
    show ?thesis
    proof (cases "filter is_included_chunk chunks_data = []")
      case True
      with ne show ?thesis by (simp add: build_chunks_context_def)
    next
      case False
      then obtain t where "build_chunks_context enc str_num chunks_data opts = Inr (t, Map.empty)"
        and "t \<noteq> []"
        using build_chunks_context_text_nonempty by blast
      with ne show ?thesis by simp
    qed
  qed
qed

theorem whitespace_only_chunks_raise_witness:
  "build_chunks_context None example_str_num [blank_chunk, blank_chunk] (example_options 8000)
     = Inl IndexError
   \<and> build_chunks_context None example_str_num [] (example_options 8000) = Inr ([], Map.empty)
   \<and> build_chunks_context None example_str_num [example_chunk] (example_options 8000)
       \<noteq> Inr ([], Map.empty)"
proof -
  have s: "py_strip (chunk_text blank_chunk) = []"
    by (simp add: blank_chunk_def py_strip_def py_isspace_def)
  have a: "build_chunks_context None example_str_num [blank_chunk, blank_chunk]
      (example_options 8000) = Inl IndexError"
    using whitespace_only_chunks_raise
      [of "[blank_chunk, blank_chunk]" None example_str_num "example_options 8000"] s
    by simp
  have b: "build_chunks_context None example_str_num [] (example_options 8000)
      = Inr ([], Map.empty)"
    using whitespace_only_chunks_raise [of "[]" None example_str_num "example_options 8000"]
    by simp
  have c: "build_chunks_context None example_str_num [example_chunk] (example_options 8000)
       \<noteq> Inr ([], Map.empty)"
    using whitespace_only_chunks_raise
      [of "[example_chunk]" None example_str_num "example_options 8000"]
    by simp
  from a b c show ?thesis by blast
qed


subsection \<open>Caller isolation and the local record sets\<close>

lemma run_cypher_query_ignores_caller:
  "unstructured_search svc caller ''run_cypher_query'' args
     = unstructured_search svc other ''run_cypher_query'' args"
  by (simp add: unstructured_search_def)

text \<open>
  Claim C3. The passthrough does not isolate callers: \<^verbatim>\<open>run_cypher_query\<close> runs the
  query text it is given with the fixed parameter \<^verbatim>\<open>user_email="system@example.com"\<close>,
  not with the caller's key, so a run for \<^verbatim>\<open>bob@example.com\<close> is answered with the
  chunk of \<^verbatim>\<open>alice@example.com\<close> as well.
\<close>

theorem run_cypher_query_returns_other_callers_records:
  "call_tool example_graph_services [''run_cypher_query'' \<mapsto> ''unstructured'']
       ''bob@example.com'' ''run_cypher_query'' [''query'' \<mapsto> ''MATCH (c:__Chunk__) RETURN c'']
     = Inr (Records
         [\<lparr>node_label = ''__Chunk__'', userEmail = ''alice@example.com'', node_key = ''chunk-1''\<rparr>,
          \<lparr>node_label = ''__Chunk__'', userEmail = ''bob@example.com'', node_key = ''chunk-2''\<rparr>])"
  by (simp add: call_tool_def unstructured_search_def arg_def run_cypher_query_def
      example_graph_services_def example_session_run_def example_graph_def)

text \<open>
  Claim C8. The local builder packs the chunk into its text, and its record sets stay
  empty: \<^verbatim>\<open>_build_chunks_context\<close> returns the dictionary \<^verbatim>\<open>context_data\<close> it
  created empty, so \<^verbatim>\<open>context_records\<close> has no entry \<^verbatim>\<open>chunks\<close>.
\<close>

theorem local_context_records_stay_empty:
  "snd (local_build_context (\<lambda>q. Inr [example_chunk]) (\<lambda>q cs. Some [0.5])
         (Some ''bob@example.com'') True None example_str_num ''alpha'' None
         (example_options 8000))
     = Inr \<lparr>context_chunks = Text (fst (chunk_context_text example_str_num example_chunk)),
            context_records = Map.empty, llm_calls = 0, prompt_tokens = 0, output_tokens = 0\<rparr>"
proof -
  have g: "get_chunks_from_neo4j (\<lambda>q. Inr [example_chunk]) (\<lambda>q cs. Some [0.5])
         (Some ''bob@example.com'') True ''alpha'' 0.3 None
       = ([ChunkDataQuery ''bob@example.com'' None], Inr [example_chunk])"
    by (simp add: get_chunks_from_neo4j_def example_chunk_def)
  have i: "is_included_chunk example_chunk"
    by (simp add: is_included_chunk_def example_chunk_def py_strip_def py_isspace_def)
  have b: "build_chunks_context None example_str_num [example_chunk] (example_options 8000)
       = Inr (fst (chunk_context_text example_str_num example_chunk), Map.empty)"
    using i by (simp add: build_chunks_context_def Let_def split_beta)
  show ?thesis
    unfolding local_build_context_def g by (simp add: b)
qed

subsection \<open>Lexical relevance\<close>

lemma report_text_titled:
  "title r \<noteq> None \<Longrightarrow> report_text r = Inr (py_lower (searchable_text r))"
  by (auto simp: report_text_def searchable_text_def)

lemma relevant_loop_titled:
  "list_all (\<lambda>r. title r \<noteq> None) reports \<Longrightarrow>
   relevant_loop ts acc reports
     = Inr (acc @ filter (\<lambda>r. term_matches ts (py_lower (searchable_text r))) reports)"
  by (induction reports arbitrary: acc) (simp_all add: report_text_titled)

lemma relevant_loop_untitled:
  "\<not> list_all (\<lambda>r. title r \<noteq> None) reports \<Longrightarrow>
   relevant_loop ts acc reports = Inl TypeError"
proof (induction reports arbitrary: acc)
  case Nil
  then show ?case by simp
next
  case (Cons r reports)
  show ?case
  proof (cases "title r")
    case None
    then show ?thesis by (simp add: report_text_def)
  next
    case (Some t)
    with Cons.prems have "\<not> list_all (\<lambda>r. title r \<noteq> None) reports" by simp
    from Cons.IH [OF this] Some show ?thesis by (simp add: report_text_def)
  qed
qed

lemma term_matches_relevant:
  "term_matches (remdups (py_split (py_lower query))) (py_lower (searchable_text r))
     = relevant query r"
  by (auto simp: term_matches_def relevant_def list_ex_iff)

text \<open>
  When every candidate has a title, the filter keeps the relevant reports when there are
  any and all candidates otherwise. When some candidate has none and the query has a
  term, the filter raises.
\<close>

lemma relevance_filter_titled:
  assumes "list_all (\<lambda>r. title r \<noteq> None) reports"
  shows "relevance_filter query reports =
     Inr (if filter (relevant query) reports \<noteq> [] then filter (relevant query) reports
          else reports)"
proof (cases "py_split (py_lower query) = []")
  case True
  then have "filter (relevant query) reports = []"
    by (simp add: relevant_def)
  with True show ?thesis by (simp add: relevance_filter_def)
next
  case False
  then show ?thesis
    by (simp add: relevance_filter_def relevant_loop_titled [OF assms]
        term_matches_relevant Let_def)
qed

lemma relevance_filter_untitled:
  assumes "\<not> list_all (\<lambda>r. title r \<noteq> None) reports"
  shows "relevance_filter query reports =
     (if py_split (py_lower query) = [] then Inr reports else Inl TypeError)"
  by (simp add: relevance_filter_def relevant_loop_untitled [OF assms] Let_def)

lemma weights_keep_ids:
  "map report_id (compute_community_weights_neo4j reports n) = map report_id reports"
  by (simp add: compute_community_weights_neo4j_def Let_def o_def)

text \<open>
  Claim C5. The filter lower-cases the query and the text of a report (title, summary and
  entity names joined by spaces) and keeps the reports in which a query term longer than 2
  characters occurs, or all candidates when there is none. A candidate whose title is
  null, a community without a finding and without a title, makes the filter raise
  \<^verbatim>\<open>TypeError\<close> instead, whatever the other candidates are, and the retrieval fails
  after its one query.
\<close>

theorem relevance_filter_raises_on_untitled:
  "relevance_filter ''What about ALPHA'' example_reports = Inr [hd example_reports]
   \<and> relevance_filter ''xyz-no-match-term'' example_reports = Inr example_reports
   \<and> relevance_filter ''alpha'' (example_reports @ [untitled_report]) = Inl TypeError
   \<and> relevance_filter ''xyz-no-match-term'' [untitled_report] = Inl TypeError
   \<and> get_community_reports_from_neo4j (\<lambda>q. Inr (example_reports @ [untitled_report]))
         (Some ''bob@example.com'') ''alpha'' False 0 True True
       = ([CommunityReportsQuery (Some ''bob@example.com'')], Inl TypeError)"
proof -
  have a: "relevance_filter ''What about ALPHA'' example_reports = Inr [hd example_reports]"
    by code_simp
  have b: "relevance_filter ''xyz-no-match-term'' example_reports = Inr example_reports"
    by code_simp
  have c: "relevance_filter ''alpha'' (example_reports @ [untitled_report]) = Inl TypeError"
    by code_simp
  have d: "relevance_filter ''xyz-no-match-term'' [untitled_report] = Inl TypeError"
    by code_simp
  have e: "get_community_reports_from_neo4j (\<lambda>q. Inr (example_reports @ [untitled_report]))
         (Some ''bob@example.com'') ''alpha'' False 0 True True
       = ([CommunityReportsQuery (Some ''bob@example.com'')], Inl TypeError)"
    by (simp add: get_community_reports_from_neo4j_def c)
  from a b c d e show ?thesis by blast
qed

subsection \<open>The scope key\<close>

lemma global_build_context_issued:
  "fst (global_build_context env session user_email query conversation_history opts)
     = [CommunityReportsQuery (if truthy user_email then user_email else None)]"
  by (simp add: global_build_context_def get_community_reports_from_neo4j_def Let_def
      split_beta split: sum.splits option.splits)

lemma local_build_context_requires_key:
  "\<not> truthy user_email \<Longrightarrow>
     local_build_context session similarities user_email openai_client enc str_num query
         conversation_history opts
       = ([], Inl (ValueError ''User email is required''))"
  by (simp add: local_build_context_def get_chunks_from_neo4j_def split_beta
      split: option.splits)

lemma local_build_context_requires_client:
  "truthy user_email \<Longrightarrow> \<not> openai_client \<Longrightarrow>
     local_build_context session similarities user_email openai_client enc str_num query
         conversation_history opts
       = ([], Inl (ValueError ''OpenAI API key is required''))"
  by (simp add: local_build_context_def get_chunks_from_neo4j_def split_beta
      split: option.splits)

text \<open>
  Claim C1. With an absent \<^verbatim>\<open>user_email\<close> (\<^verbatim>\<open>None\<close>, or the empty string a request may
  carry) the local builder raises \<^verbatim>\<open>ValueError\<close> before any query is sent, but the global
  builder sends the community query without the \<^verbatim>\<open>userEmail\<close> property and returns the
  reports of every owner; with a \<^verbatim>\<open>user_email\<close> it sends the scoped query and returns that
  owner's reports only.
\<close>

theorem global_builder_queries_without_key:
  "get_community_reports_from_neo4j example_community_store (Some []) ''plan budget''
       False 0 False True
     = ([CommunityReportsQuery None], Inr example_reports)
   \<and> get_community_reports_from_neo4j example_community_store None ''plan budget''
       False 0 False True
     = ([CommunityReportsQuery None], Inr example_reports)
   \<and> get_community_reports_from_neo4j example_community_store (Some ''bob@example.com'')
       ''plan budget'' False 0 False True
     = ([CommunityReportsQuery (Some ''bob@example.com'')], Inr [example_reports ! 1])
   \<and> fst (global_build_context example_environment example_community_store (Some [])
         ''plan budget'' None (example_community_options 8000))
     = [CommunityReportsQuery None]
   \<and> \<not> isl (snd (global_build_context example_environment example_community_store (Some [])
         ''plan budget'' None (example_community_options 8000)))
   \<and> local_build_context (\<lambda>q. Inr [example_chunk]) (\<lambda>q cs. Some [0.5]) (Some [])
       True None example_str_num ''plan budget'' None (example_options 8000)
     = ([], Inl (ValueError ''User email is required''))
   \<and> local_build_context (\<lambda>q. Inr [example_chunk]) (\<lambda>q cs. Some [0.5]) None
       True None example_str_num ''plan budget'' None (example_options 8000)
     = ([], Inl (ValueError ''User email is required''))"
proof -
  have a: "get_community_reports_from_neo4j example_community_store (Some []) ''plan budget''
       False 0 False True
     = ([CommunityReportsQuery None], Inr example_reports)"
    by code_simp
  have b: "get_community_reports_from_neo4j example_community_store None ''plan budget''
       False 0 False True
     = ([CommunityReportsQuery None], Inr example_reports)"
    by code_simp
  have c: "get_community_reports_from_neo4j example_community_store (Some ''bob@example.com'')
       ''plan budget'' False 0 False True
     = ([CommunityReportsQuery (Some ''bob@example.com'')], Inr [example_reports ! 1])"
    by code_simp
  have d: "fst (global_build_context example_environment example_community_store (Some [])
         ''plan budget'' None (example_community_options 8000))
     = [CommunityReportsQuery None]"
    by (simp add: global_build_context_issued)
  have e: "\<not> isl (snd (global_build_context example_environment example_community_store
         (Some []) ''plan budget'' None (example_community_options 8000)))"
    using a
    by (simp add: global_build_context_def example_community_options_def split_beta)
  have f: "local_build_context (\<lambda>q. Inr [example_chunk]) (\<lambda>q cs. Some [0.5]) (Some [])
       True None example_str_num ''plan budget'' None (example_options 8000)
     = ([], Inl (ValueError ''User email is required''))"
    by (simp add: local_build_context_requires_key)
  have g: "local_build_context (\<lambda>q. Inr [example_chunk]) (\<lambda>q cs. Some [0.5]) None
       True None example_str_num ''plan budget'' None (example_options 8000)
     = ([], Inl (ValueError ''User email is required''))"
    by (simp add: local_build_context_requires_key)
  from a b c d e f g show ?thesis by blast
qed

subsection \<open>The token ceiling\<close>

lemma example_chunk_tokens:
  "count_tokens None (chunk_line example_str_num example_chunk) = 21"
  "count_tokens None (chunk_line example_str_num second_chunk) = 21"
  by code_simp+

lemma example_chunks_included:
  "is_included_chunk example_chunk" "is_included_chunk second_chunk"
  by code_simp+

text \<open>
  Claim C2. Two chunks whose texts count 21 tokens each are both packed under a ceiling of
  42 tokens, since the loop adds up the token counts of the chunk texts only; the text
  returned joins them with the separator line \<^verbatim>\<open>---\<close>, which the loop never counted, and
  counts 43 tokens by the same counter. A first chunk is packed whatever its size: one
  chunk of 21 tokens is returned under a ceiling of 5.
\<close>

theorem packed_text_exceeds_ceiling:
  "count_tokens None (chunk_line example_str_num example_chunk) = 21
   \<and> count_tokens None (chunk_line example_str_num second_chunk) = 21
   \<and> max_context_tokens (example_options 42) = 42
   \<and> build_chunks_context None example_str_num [example_chunk, second_chunk]
         (example_options 42)
       = Inr (chunk_line example_str_num example_chunk @ NL @ NL @ ''---'' @ NL @ NL
                @ chunk_line example_str_num second_chunk, Map.empty)
   \<and> count_tokens None
         (chunk_line example_str_num example_chunk @ NL @ NL @ ''---'' @ NL @ NL
            @ chunk_line example_str_num second_chunk) = 43
   \<and> build_chunks_context None example_str_num [example_chunk] (example_options 5)
       = Inr (chunk_line example_str_num example_chunk, Map.empty)"
proof -
  have m: "max_context_tokens (example_options 42) = 42"
    "max_context_tokens (example_options 5) = 5"
    by (simp_all add: example_options_def)
  have l: "fst (chunk_context_text example_str_num example_chunk)
             = chunk_line example_str_num example_chunk"
    "fst (chunk_context_text example_str_num second_chunk)
             = chunk_line example_str_num second_chunk"
    by (simp_all add: chunk_line_def)
  have b: "build_chunks_context None example_str_num [example_chunk, second_chunk]
         (example_options 42)
       = Inr (chunk_line example_str_num example_chunk @ NL @ NL @ ''---'' @ NL @ NL
                @ chunk_line example_str_num second_chunk, Map.empty)"
    using example_chunk_tokens
    by (simp add: build_chunks_context_def example_chunks_included m l [symmetric]
        split_beta Let_def)
  have c: "count_tokens None
         (chunk_line example_str_num example_chunk @ NL @ NL @ ''---'' @ NL @ NL
            @ chunk_line example_str_num second_chunk) = 43"
    by code_simp
  have d: "build_chunks_context None example_str_num [example_chunk] (example_options 5)
       = Inr (chunk_line example_str_num example_chunk, Map.empty)"
    by (simp add: build_chunks_context_def example_chunks_included l [symmetric]
        split_beta Let_def)
  from example_chunk_tokens m(1) b c d show ?thesis by blast
qed

end
